theory Spec2Isabelle
  imports Main "HOL-Library.Word"
begin

unbundle bit_operations_syntax

section \<open>Common types\<close>

type_synonym byte_t = "8 word"
type_synonym ui32_t = "32 word"
type_synonym ui64_t = "64 word"

text \<open>
  \<open>Kumu::Result_t\<close>: the result codes the three source files return. A result is a
  failure exactly when it is not \<open>RESULT_OK\<close>.
\<close>

datatype Result_t =
    RESULT_OK | RESULT_FAIL | RESULT_PTR | RESULT_INIT | RESULT_STATE
  | RESULT_FILEOPEN | RESULT_BADSEEK | RESULT_READFAIL | RESULT_WRITEFAIL
  | RESULT_FORMAT | RESULT_RANGE | RESULT_SMALLBUF | RESULT_CRYPT_INIT | RESULT_HMACFAIL

definition Failure :: "Result_t \<Rightarrow> bool" where
  "Failure r = (r \<noteq> RESULT_OK)"

definition ASDCP_SUCCESS :: "Result_t \<Rightarrow> bool" where
  "ASDCP_SUCCESS r = (r = RESULT_OK)"

text \<open>
  A call either returns a value or does not return normally: a failed \<open>assert\<close>, the
  assertion in \<open>Kumu::mem_ptr::operator->\<close> on an empty pointer, or a buffer shorter than
  the length passed with it (undefined behaviour in C++) are all \<open>Aborts\<close>.
\<close>

datatype 'a outcome = Returns 'a | Aborts

definition SMPTE_UL_LENGTH :: nat where "SMPTE_UL_LENGTH = 16"
definition CBC_BLOCK_SIZE :: nat where "CBC_BLOCK_SIZE = 16"
definition KeyLen :: nat where "KeyLen = 16"
definition HMAC_SIZE :: nat where "HMAC_SIZE = 20"

section \<open>HMAC context (AS\_DCP\_AES.cpp)\<close>

text \<open>
  OpenSSL's SHA-1 is not code of this repository: it is the parameter \<open>sha1\<close>, a function
  from the message to the digest. A \<open>SHA_CTX\<close> is modelled by the bytes absorbed since
  \<open>SHA1_Init\<close>; \<open>SHA1_Final\<close> applies \<open>sha1\<close> to them.
\<close>

type_synonym SHA_CTX = "byte_t list"

definition SHA1_Init :: SHA_CTX where
  "SHA1_Init = []"

definition SHA1_Update :: "SHA_CTX \<Rightarrow> byte_t list \<Rightarrow> nat \<Rightarrow> SHA_CTX" where
  "SHA1_Update c buf len = c @ take len buf"


definition ipad :: "byte_t list" where
  "ipad = replicate 16 0x36"


record h__HMACContext =
  m_SHA :: SHA_CTX
  m_key :: "byte_t list"
  sha_value :: "byte_t list"
  m_Final :: bool

text \<open>\<open>BN_bin2bn\<close>: the big-endian bytes read as a non-negative integer.\<close>

definition BN_bin2bn :: "byte_t list \<Rightarrow> int" where
  "BN_bin2bn bs = foldl (\<lambda>a b. a * 256 + uint b) 0 bs"

text \<open>
  \<open>BN_bn2bin\<close>: the big-endian bytes of a non-negative integer with no leading zero byte
  (\<open>BN_num_bytes\<close> of them; none for 0).
\<close>

fun bn2bin_nat :: "nat \<Rightarrow> byte_t list" where
  "bn2bin_nat n = (if n = 0 then [] else bn2bin_nat (n div 256) @ [of_nat (n mod 256)])"

declare bn2bin_nat.simps [simp del]

definition BN_bn2bin :: "int \<Rightarrow> byte_t list" where
  "BN_bn2bin x = bn2bin_nat (nat x)"


definition xor_buf :: "byte_t list \<Rightarrow> byte_t list \<Rightarrow> nat \<Rightarrow> byte_t list" where
  "xor_buf a b n = map (\<lambda>i. (a ! i) XOR (b ! i)) [0..<n]"

definition h__HMACContext_Reset :: "h__HMACContext \<Rightarrow> h__HMACContext" where
  "h__HMACContext_Reset c =
     c\<lparr> sha_value := replicate HMAC_SIZE 0,
        m_Final := False,
        m_SHA := SHA1_Update SHA1_Init (xor_buf (m_key c) ipad KeyLen) KeyLen \<rparr>"







text \<open>
  The public \<open>HMACContext\<close> holds \<open>m_Context\<close>, a \<open>mem_ptr\<close> that is empty (\<open>None\<close>) until
  \<open>InitKey\<close>. Pointer arguments are options: \<open>None\<close> is the null pointer, which
  \<open>ASDCP_TEST_NULL\<close> answers with \<open>RESULT_PTR\<close>. The constructor of \<open>h__HMACContext\<close>
  sets \<open>m_Final\<close> only; the other members hold what the allocation left there
  (\<open>uninit\<close>) until \<open>SetKey\<close> or \<open>SetInteropKey\<close> overwrite them.
\<close>

datatype LabelSet_t = LS_MXF_UNKNOWN | LS_MXF_INTEROP | LS_MXF_SMPTE

type_synonym HMACContext = "h__HMACContext option"



definition HMACContext_Reset :: "HMACContext \<Rightarrow> HMACContext" where
  "HMACContext_Reset m_Context =
     (case m_Context of None \<Rightarrow> None | Some c \<Rightarrow> Some (h__HMACContext_Reset c))"






section \<open>AES-CBC contexts (AS\_DCP\_AES.cpp)\<close>


record h__AESContext =
  AES_KEY :: "byte_t list"
  m_IVec :: "byte_t list"

type_synonym AESContext = "h__AESContext option"



definition AESEncContext_GetIVec ::
  "byte_t list option \<Rightarrow> AESContext \<Rightarrow> Result_t \<times> byte_t list option" where
  "AESEncContext_GetIVec i_vec m_Context =
     (case i_vec of
        None \<Rightarrow> (RESULT_PTR, i_vec)
      | Some v \<Rightarrow>
          (case m_Context of
             None \<Rightarrow> (RESULT_INIT, i_vec)
           | Some c \<Rightarrow> (RESULT_OK, Some (take CBC_BLOCK_SIZE (m_IVec c) @ drop CBC_BLOCK_SIZE v))))"







section \<open>Files and BER lengths\<close>

text \<open>
  Modelled from the spec: the file I/O primitives (seekable read and write with
  \<open>Tell\<close>, \<open>Seek\<close>, \<open>Read\<close>, \<open>Write\<close>; \<open>Kumu::FileReader\<close> and \<open>Kumu::FileWriter\<close>
  are not among the source files). A file is its bytes, the position of the handle, the
  room the device has (\<open>f_capacity\<close>, so that a write can fail) and the log of the calls
  made on it. Positions are \<open>Kumu::fpos_t\<close>, a signed 64-bit offset: a seek to a negative
  offset fails, and no write can end past \<open>max_fpos\<close>. A short read is \<open>RESULT_READFAIL\<close>.
  A file that is not open answers every call with \<open>RESULT_FILEOPEN\<close>.
\<close>

datatype io_call = IO_Seek ui64_t | IO_Read nat | IO_Write "byte_t list"

record km_file =
  f_open :: bool
  f_data :: "byte_t list"
  f_pos :: nat
  f_capacity :: nat
  f_log :: "io_call list"

definition closed_file :: km_file where
  "closed_file = \<lparr> f_open = False, f_data = [], f_pos = 0, f_capacity = 0, f_log = [] \<rparr>"

definition max_fpos :: nat where
  "max_fpos = 2 ^ 63 - 1"

definition File_Tell :: "km_file \<Rightarrow> ui64_t" where
  "File_Tell f = of_nat (f_pos f)"

definition File_Seek :: "ui64_t \<Rightarrow> km_file \<Rightarrow> Result_t \<times> km_file" where
  "File_Seek p f =
     (if \<not> f_open f then (RESULT_FILEOPEN, f)
      else
        let f' = f\<lparr> f_log := f_log f @ [IO_Seek p] \<rparr>
        in if sint p < 0 then (RESULT_BADSEEK, f') else (RESULT_OK, f'\<lparr> f_pos := unat p \<rparr>))"

definition File_Read :: "nat \<Rightarrow> km_file \<Rightarrow> Result_t \<times> byte_t list \<times> km_file" where
  "File_Read n f =
     (if \<not> f_open f then (RESULT_FILEOPEN, [], f)
      else
        let bytes = take n (drop (f_pos f) (f_data f));
            f' = f\<lparr> f_pos := f_pos f + length bytes, f_log := f_log f @ [IO_Read n] \<rparr>
        in (if length bytes = n then RESULT_OK else RESULT_READFAIL, bytes, f'))"

definition File_Write :: "byte_t list \<Rightarrow> km_file \<Rightarrow> Result_t \<times> km_file" where
  "File_Write bs f =
     (if \<not> f_open f then (RESULT_FILEOPEN, f)
      else
        let f' = f\<lparr> f_log := f_log f @ [IO_Write bs] \<rparr>
        in if f_pos f + length bs > min (f_capacity f) max_fpos then (RESULT_WRITEFAIL, f')
           else (RESULT_OK,
                 f'\<lparr> f_data := take (f_pos f)
                                  (f_data f @ replicate (f_pos f - length (f_data f)) 0)
                                @ bs @ drop (f_pos f + length bs) (f_data f),
                      f_pos := f_pos f + length bs \<rparr>))"

text \<open>The \<open>n\<close> big-endian bytes of a value, and the value of big-endian bytes.\<close>

fun be_bytes :: "nat \<Rightarrow> nat \<Rightarrow> byte_t list" where
  "be_bytes 0 v = []"
| "be_bytes (Suc n) v = be_bytes n (v div 256) @ [of_nat (v mod 256)]"

definition be_value :: "byte_t list \<Rightarrow> nat" where
  "be_value bs = foldl (\<lambda>a b. a * 256 + unat b) 0 bs"

text \<open>
  Modelled from the spec: \<open>Kumu::write_BER\<close>, which is not among the source files. The
  long form emits \<open>0x80 | n\<close> followed by the \<open>n\<close> big-endian bytes of the value;
  \<open>ber_len\<close> is the size of the whole length field, so the 8-byte field of the clip has
  the leading byte \<open>0x87\<close> and seven value bytes. The call fails (\<open>None\<close>) when the value
  does not fit or the size is not between 1 and 9.
\<close>

definition write_BER :: "ui64_t \<Rightarrow> nat \<Rightarrow> byte_t list option" where
  "write_BER val ber_len =
     (if ber_len = 0 \<or> ber_len > 9 then None
      else if unat val \<ge> 256 ^ (ber_len - 1) then None
      else Some (of_nat (0x80 + (ber_len - 1)) # be_bytes (ber_len - 1) (unat val)))"

text \<open>
  Modelled from the spec: decoding a BER length, which accepts the short form (one byte
  below \<open>0x80\<close>) and the long form.
\<close>

definition read_BER :: "byte_t list \<Rightarrow> nat option" where
  "read_BER bs =
     (case bs of
        [] \<Rightarrow> None
      | b # rest \<Rightarrow>
          if b < 0x80 then Some (unat b)
          else
            let n = unat (b AND 0x7f)
            in if length rest < n then None else Some (be_value (take n rest)))"

section \<open>IAB track file writer (AS\_02\_IAB.cpp)\<close>

definition CLIP_BER_LENGTH_SIZE :: nat where
  "CLIP_BER_LENGTH_SIZE = 8"

definition RESERVED_KL_SIZE :: nat where
  "RESERVED_KL_SIZE = SMPTE_UL_LENGTH + CLIP_BER_LENGTH_SIZE"

datatype MDD =
    MDD_ImmersiveAudioCoding | MDD_IABSoundfield | MDD_IMF_IABEssenceClipWrappedElement
  | MDD_IMF_IABEssenceClipWrappedContainer | MDD_SoundDataDef
  | MDD_IABEssenceDescriptor | MDD_IABSoundfieldLabelSubDescriptor | MDD_Track

type_synonym UL = "byte_t list"
type_synonym Rational = "int \<times> int"

record WriterInfo =
  LabelSetType :: LabelSet_t
  AssetUUID :: "byte_t list"
  EncryptedEssence :: bool

record IABEssenceDescriptor =
  InstanceUID :: "byte_t list"
  SampleRate :: Rational
  AudioSamplingRate :: Rational
  ChannelCount :: ui32_t
  SoundEssenceCoding :: UL
  QuantizationBits :: ui32_t
  SubDescriptors :: "byte_t list list"

record IABSoundfieldLabelSubDescriptor =
  SubInstanceUID :: "byte_t list"
  MCATagName :: string
  MCATagSymbol :: string
  MCALabelDictionaryID :: UL
  MCALinkID :: "byte_t list"

text \<open>
  The index writer keeps the edit rate and the entries pushed so far; an entry is its
  \<open>StreamOffset\<close>. Modelled from the spec: \<open>PushIndexEntry\<close> (not among the source
  files) appends the entry, so that entries are in frame-number order.
\<close>

record AS02IndexWriter =
  m_EditRate :: Rational
  IndexEntryArray :: "ui64_t list"

definition PushIndexEntry :: "ui64_t \<Rightarrow> AS02IndexWriter \<Rightarrow> AS02IndexWriter" where
  "PushIndexEntry Entry iw = iw\<lparr> IndexEntryArray := IndexEntryArray iw @ [Entry] \<rparr>"

record h__Writer =
  m_Info :: WriterInfo
  m_HeaderSize :: ui32_t
  m_File :: km_file
  m_EssenceDescriptor :: "IABEssenceDescriptor option"
  m_EssenceSubDescriptorList :: "IABSoundfieldLabelSubDescriptor list"
  m_IndexWriter :: AS02IndexWriter
  m_FramesWritten :: ui32_t
  m_StreamOffset :: ui64_t

datatype WriterState = ST_BEGIN | ST_READY | ST_RUNNING

record MXFWriter =
  m_ClipStart :: ui64_t
  m_State :: WriterState
  m_GenericStreamID :: ui32_t
  m_NextTrackID :: ui32_t
  m_Writer :: "h__Writer option"

text \<open>
  What the writer calls and the source files do not hold: the dictionary of universal
  labels, the random source of \<open>GenRandomValue\<close> (its \<open>i\<close>-th value in a call), the
  constructor of \<open>h__Writer\<close>, opening the file, and the header and footer writers of the
  AS-02 base class. They are parameters of the model.
\<close>

record writer_env =
  Dict_ul :: "MDD \<Rightarrow> UL"
  GenRandomValue :: "nat \<Rightarrow> byte_t list"
  h__Writer_new :: h__Writer
  FileWriter_OpenWrite :: "string \<Rightarrow> Result_t \<times> km_file"
  WriteAS02Header :: "UL \<Rightarrow> Rational \<Rightarrow> UL list \<Rightarrow> h__Writer \<Rightarrow> Result_t \<times> h__Writer"
  WriteAS02Footer :: "h__Writer \<Rightarrow> Result_t \<times> h__Writer"

definition MXFWriter_new :: MXFWriter where
  "MXFWriter_new =
     \<lparr> m_ClipStart = 0, m_State = ST_BEGIN, m_GenericStreamID = 2, m_NextTrackID = 2,
       m_Writer = None \<rparr>"

definition MXFWriter_Reset :: "MXFWriter \<Rightarrow> MXFWriter" where
  "MXFWriter_Reset w = w\<lparr> m_Writer := None, m_State := ST_BEGIN \<rparr>"

text \<open>
  \<open>MXFWriter::OpenWrite\<close>. Every \<open>throw\<close> inside the \<open>try\<close> block ends in the handler,
  which calls \<open>Reset\<close> and returns the result thrown.
\<close>

definition OpenWrite ::
  "writer_env \<Rightarrow> string \<Rightarrow> WriterInfo \<Rightarrow> IABSoundfieldLabelSubDescriptor \<Rightarrow> UL list
     \<Rightarrow> Rational \<Rightarrow> Rational \<Rightarrow> MXFWriter \<Rightarrow> Result_t \<times> MXFWriter" where
  "OpenWrite env filename Info sub conformsToSpecs edit_rate sample_rate w =
     (if m_State w \<noteq> ST_BEGIN then (RESULT_STATE, w)
      else
        let h = (h__Writer_new env)\<lparr> m_Info := Info, m_HeaderSize := 16 * 1024 \<rparr>;
            (result, f) = FileWriter_OpenWrite env filename;
            h = h\<lparr> m_File := f \<rparr>
        in if Failure result then (result, MXFWriter_Reset w)
           else
             let desc = \<lparr> InstanceUID = GenRandomValue env 0,
                          SampleRate = edit_rate,
                          AudioSamplingRate = sample_rate,
                          ChannelCount = 0,
                          SoundEssenceCoding = Dict_ul env MDD_ImmersiveAudioCoding,
                          QuantizationBits = 24,
                          SubDescriptors = [] \<rparr>;
                 subdesc = sub\<lparr> SubInstanceUID := GenRandomValue env 1,
                                MCATagName := ''IAB'',
                                MCATagSymbol := ''IAB'',
                                MCALabelDictionaryID := Dict_ul env MDD_IABSoundfield,
                                MCALinkID := GenRandomValue env 2 \<rparr>;
                 h = h\<lparr> m_EssenceDescriptor :=
                          Some (desc\<lparr> SubDescriptors := SubDescriptors desc @ [SubInstanceUID subdesc] \<rparr>),
                        m_EssenceSubDescriptorList := m_EssenceSubDescriptorList h @ [subdesc],
                        m_IndexWriter := (m_IndexWriter h)\<lparr> m_EditRate := edit_rate \<rparr> \<rparr>;
                 element_ul_bytes =
                   (take SMPTE_UL_LENGTH (Dict_ul env MDD_IMF_IABEssenceClipWrappedElement))
                     [15 := 1, 13 := 1];
                 (result, h) = WriteAS02Header env element_ul_bytes edit_rate conformsToSpecs h
             in if Failure result then (result, MXFWriter_Reset w)
                else
                  let w = w\<lparr> m_ClipStart := File_Tell (m_File h) \<rparr>
                  in case write_BER 0 CLIP_BER_LENGTH_SIZE of
                       None \<Rightarrow> (RESULT_FAIL, MXFWriter_Reset w)
                     | Some ber \<Rightarrow>
                         let clip_buffer = element_ul_bytes @ ber;
                             (result, f) = File_Write (take RESERVED_KL_SIZE clip_buffer) (m_File h)
                         in if Failure result then (result, MXFWriter_Reset w)
                            else (result,
                                  w\<lparr> m_Writer :=
                                       Some (h\<lparr> m_File := f,
                                                m_StreamOffset := of_nat RESERVED_KL_SIZE \<rparr>),
                                     m_State := ST_READY \<rparr>))"

text \<open>
  \<open>MXFWriter::WriteFrame\<close>. \<open>frame\<close> must hold \<open>sz\<close> bytes. The index entry is pushed
  before the frame is written.
\<close>

definition WriteFrame :: "byte_t list \<Rightarrow> ui32_t \<Rightarrow> MXFWriter \<Rightarrow> (Result_t \<times> MXFWriter) outcome" where
  "WriteFrame frame sz w =
     (if m_State w = ST_BEGIN then Returns (RESULT_INIT, w)
      else
        case m_Writer w of
          None \<Rightarrow> Aborts
        | Some h \<Rightarrow>
            let Entry = m_StreamOffset h;
                h = h\<lparr> m_IndexWriter := PushIndexEntry Entry (m_IndexWriter h) \<rparr>
            in if length frame < unat sz then Aborts
               else
                 let (result, f) = File_Write (take (unat sz) frame) (m_File h);
                     h = h\<lparr> m_File := f \<rparr>
                 in if Failure result then Returns (result, MXFWriter_Reset w)
                    else
                      let h = h\<lparr> m_FramesWritten := m_FramesWritten h + 1 \<rparr>;
                          h = h\<lparr> m_StreamOffset := m_StreamOffset h + ucast sz \<rparr>
                      in Returns (result, w\<lparr> m_Writer := Some h, m_State := ST_RUNNING \<rparr>))"

text \<open>
  \<open>MXFWriter::FinalizeClip\<close>. The result of the first \<open>Seek\<close> is overwritten unread, as
  in the source.
\<close>

definition FinalizeClip :: "MXFWriter \<Rightarrow> (Result_t \<times> MXFWriter) outcome" where
  "FinalizeClip w =
     (if m_State w = ST_BEGIN then Returns (RESULT_INIT, w)
      else
        case m_Writer w of
          None \<Rightarrow> Aborts
        | Some h \<Rightarrow>
            let current_position = File_Tell (m_File h);
                (result, f) = File_Seek (m_ClipStart w + of_nat SMPTE_UL_LENGTH) (m_File h);
                size = m_StreamOffset h - of_nat RESERVED_KL_SIZE
            in (case write_BER size CLIP_BER_LENGTH_SIZE of
                  None \<Rightarrow> Returns (RESULT_FAIL, MXFWriter_Reset w)
                | Some clip_buffer \<Rightarrow>
                    let (result, f) = File_Write clip_buffer f
                    in if Failure result then Returns (result, MXFWriter_Reset w)
                       else
                         let (result, f) = File_Seek current_position f
                         in if Failure result then Returns (result, MXFWriter_Reset w)
                            else Returns (result, w\<lparr> m_Writer := Some (h\<lparr> m_File := f \<rparr>) \<rparr>)))"

text \<open>
  \<open>MXFWriter::FinalizeMxf\<close>. There is no test of \<open>m_State\<close>: the first statement
  dereferences \<open>m_Writer\<close>.
\<close>

definition FinalizeMxf :: "writer_env \<Rightarrow> MXFWriter \<Rightarrow> (Result_t \<times> MXFWriter) outcome" where
  "FinalizeMxf env w =
     (case m_Writer w of
        None \<Rightarrow> Aborts
      | Some h \<Rightarrow>
          let (result, h) = WriteAS02Footer env h
          in Returns (result, MXFWriter_Reset w))"

text \<open>A run of \<open>WriteFrame\<close> calls that stops at the first call that does not return \<open>RESULT_OK\<close>.\<close>

fun WriteFrames :: "(byte_t list \<times> ui32_t) list \<Rightarrow> MXFWriter \<Rightarrow> (Result_t \<times> MXFWriter) outcome" where
  "WriteFrames [] w = Returns (RESULT_OK, w)"
| "WriteFrames ((frame, sz) # fs) w =
     (case WriteFrame frame sz w of
        Aborts \<Rightarrow> Aborts
      | Returns (result, w') \<Rightarrow>
          if Failure result then Returns (result, w') else WriteFrames fs w')"

section \<open>IAB track file reader (AS\_02\_IAB.cpp)\<close>

text \<open>
  The reader's \<open>h__Reader\<close> holds the file, the index read from the footer (an entry is
  its \<open>StreamOffset\<close>), the types of the metadata objects of the header and the writer
  info. Opening and parsing the file is the work of the AS-02 base class, which is not
  among the source files: \<open>AS02_OpenMXFRead\<close> is a parameter, giving the result and the
  \<open>h__Reader\<close> it leaves.
\<close>

record h__AS02Reader =
  m_ReaderFile :: km_file
  m_IndexAccess :: "ui64_t list"
  m_HeaderPart :: "MDD list"
  m_ReaderInfo :: WriterInfo

datatype ReaderState = ST_READER_BEGIN | ST_READER_READY | ST_READER_RUNNING

text \<open>
  \<open>m_CurrentFrameIndex\<close> is declared in \<open>AS_02_IAB.h\<close>, which is not among the source
  files, so its integer type is a parameter: the field holds an integer value of that
  type. \<open>to_FrameIndex\<close> is the conversion of an assignment to the field (two's
  complement), and \<open>FrameIndex_ne\<close> the comparison \<open>frame_number != m_CurrentFrameIndex\<close>
  of a \<open>ui32_t\<close> with the field after the usual arithmetic conversions (\<open>int\<close> is 32
  bits wide): a 32-bit field is compared as \<open>unsigned int\<close>, a 64-bit field at its own
  type.
\<close>

datatype FrameIndex_t = T_ui32 | T_i32 | T_i64 | T_ui64

definition to_FrameIndex :: "FrameIndex_t \<Rightarrow> int \<Rightarrow> int" where
  "to_FrameIndex ty v =
     (case ty of
        T_ui32 \<Rightarrow> take_bit 32 v
      | T_i32 \<Rightarrow> signed_take_bit 31 v
      | T_i64 \<Rightarrow> signed_take_bit 63 v
      | T_ui64 \<Rightarrow> take_bit 64 v)"

definition FrameIndex_ne :: "FrameIndex_t \<Rightarrow> ui32_t \<Rightarrow> int \<Rightarrow> bool" where
  "FrameIndex_ne ty frame_number idx =
     (case ty of
        T_ui32 \<Rightarrow> uint frame_number \<noteq> take_bit 32 idx
      | T_i32 \<Rightarrow> uint frame_number \<noteq> take_bit 32 idx
      | T_i64 \<Rightarrow> uint frame_number \<noteq> idx
      | T_ui64 \<Rightarrow> uint frame_number \<noteq> idx)"

record MXFReader =
  m_CurrentFrameBuffer :: "byte_t list"
  m_CurrentFrameIndex :: int
  m_Reader :: "h__AS02Reader option"
  m_ReaderState :: ReaderState

record reader_env =
  AS02_OpenMXFRead :: "string \<Rightarrow> Result_t \<times> h__AS02Reader"

text \<open>The constructor sets the state only: the frame index holds what the allocation left.\<close>

definition MXFReader_new :: "int \<Rightarrow> MXFReader" where
  "MXFReader_new uninit_index =
     \<lparr> m_CurrentFrameBuffer = [], m_CurrentFrameIndex = uninit_index, m_Reader = None,
       m_ReaderState = ST_READER_BEGIN \<rparr>"

definition MXFReader_Reset :: "MXFReader \<Rightarrow> MXFReader" where
  "MXFReader_Reset r = r\<lparr> m_Reader := None, m_ReaderState := ST_READER_BEGIN \<rparr>"

text \<open>
  Modelled from the spec: the presence test behind \<open>GetMDObjectByType\<close> and
  \<open>GetMDObjectsByType\<close> (not among the source files): an object of the type is in the
  header metadata.
\<close>

definition GetMDObjectByType :: "MDD \<Rightarrow> h__AS02Reader \<Rightarrow> bool" where
  "GetMDObjectByType ty h = (ty \<in> set (m_HeaderPart h))"

definition OpenRead :: "reader_env \<Rightarrow> FrameIndex_t \<Rightarrow> string \<Rightarrow> MXFReader \<Rightarrow> Result_t \<times> MXFReader" where
  "OpenRead env ty filename r =
     (if m_ReaderState r \<noteq> ST_READER_BEGIN then (RESULT_STATE, r)
      else
        let (result, h) = AS02_OpenMXFRead env filename;
            r = r\<lparr> m_Reader := Some h \<rparr>
        in if Failure result then (result, MXFReader_Reset r)
           else if \<not> GetMDObjectByType MDD_IABEssenceDescriptor h
             then (RESULT_FAIL, MXFReader_Reset r)
           else if \<not> GetMDObjectByType MDD_IABSoundfieldLabelSubDescriptor h
             then (RESULT_FAIL, MXFReader_Reset r)
           else if \<not> GetMDObjectByType MDD_Track h
             then (RESULT_FAIL, MXFReader_Reset r)
           else (RESULT_OK,
                 r\<lparr> m_CurrentFrameIndex := to_FrameIndex ty (- 1),
                    m_ReaderState := ST_READER_READY \<rparr>))"

definition Close :: "MXFReader \<Rightarrow> Result_t \<times> MXFReader" where
  "Close r =
     (if m_ReaderState r = ST_READER_BEGIN then (RESULT_INIT, r)
      else (RESULT_OK, MXFReader_Reset r))"

text \<open>
  Modelled from the spec: the index access of the AS-02 base class (not among the source
  files). \<open>GetDuration\<close> is the number of entries; \<open>Lookup\<close> gives the stream offset of a
  frame, and \<open>RESULT_RANGE\<close> for a frame number that is not below the frame count.
\<close>

definition GetDuration :: "ui64_t list \<Rightarrow> ui32_t" where
  "GetDuration idx = of_nat (length idx)"

definition Lookup :: "ui32_t \<Rightarrow> ui64_t list \<Rightarrow> Result_t \<times> ui64_t" where
  "Lookup frame_num idx =
     (if unat frame_num < length idx then (RESULT_OK, idx ! unat frame_num)
      else (RESULT_RANGE, 0))"

definition GetFrameCount :: "MXFReader \<Rightarrow> (Result_t \<times> ui32_t option) outcome" where
  "GetFrameCount r =
     (if m_ReaderState r = ST_READER_BEGIN then Returns (RESULT_INIT, None)
      else
        case m_Reader r of
          None \<Rightarrow> Aborts
        | Some h \<Rightarrow> Returns (RESULT_OK, Some (GetDuration (m_IndexAccess h))))"

text \<open>
  \<open>std::vector::resize\<close>, and a \<open>Read\<close> of \<open>len\<close> bytes into the frame buffer at
  \<open>buffer_offset\<close>. The sizes handed to \<open>resize\<close> are computed in \<open>ui32_t\<close> and wrap, so
  the buffer can be shorter than the read needs: writing past its end is undefined
  behaviour in the source and \<open>Aborts\<close> here.
\<close>

definition resize :: "nat \<Rightarrow> byte_t list \<Rightarrow> byte_t list" where
  "resize n buf = take n buf @ replicate (n - length buf) 0"

definition read_into ::
  "ui32_t \<Rightarrow> ui32_t \<Rightarrow> km_file \<Rightarrow> byte_t list \<Rightarrow> (Result_t \<times> byte_t list \<times> km_file) outcome" where
  "read_into buffer_offset len f buf =
     (if unat buffer_offset + unat len > length buf then Aborts
      else
        let (result, bytes, f') = File_Read (unat len) f
        in Returns (result,
                    take (unat buffer_offset) buf @ bytes
                      @ drop (unat buffer_offset + length bytes) buf,
                    f'))"

definition be32_at :: "byte_t list \<Rightarrow> ui32_t \<Rightarrow> ui32_t" where
  "be32_at buf buffer_offset =
     push_bit 24 (ucast (buf ! unat (1 + buffer_offset)))
       + push_bit 16 (ucast (buf ! unat (2 + buffer_offset)))
       + push_bit 8 (ucast (buf ! unat (3 + buffer_offset)))
       + ucast (buf ! unat (4 + buffer_offset))"

text \<open>
  The body of the \<open>try\<close> block of \<open>ReadFrame\<close> after the index lookup and the seek: the
  four reads. It gives the result, the frame buffer and the file as the block leaves
  them, whether it ends normally or by a \<open>throw\<close>.
\<close>

definition ReadFrame_reads ::
  "km_file \<Rightarrow> byte_t list \<Rightarrow> (Result_t \<times> byte_t list \<times> km_file) outcome" where
  "ReadFrame_reads f buf =
     (let preambleTLLen = (5 :: ui32_t);
          frameTLLen = (5 :: ui32_t);
          buffer_offset = (0 :: ui32_t);
          buf = resize (unat preambleTLLen) buf
      in (case read_into buffer_offset preambleTLLen f buf of
            Aborts \<Rightarrow> Aborts
          | Returns (result, buf, f) \<Rightarrow>
         (if Failure result then Returns (result, buf, f)
          else
            let preambleLen = be32_at buf buffer_offset;
                buffer_offset = buffer_offset + preambleTLLen
            in (case (if preambleLen > 0
                      then read_into buffer_offset preambleLen f
                             (resize (unat (preambleTLLen + preambleLen)) buf)
                      else Returns (result, buf, f)) of
                  Aborts \<Rightarrow> Aborts
                | Returns (result, buf, f) \<Rightarrow>
               (if Failure result then Returns (result, buf, f)
                else
                  let buffer_offset = (if preambleLen > 0 then buffer_offset + preambleLen
                                       else buffer_offset);
                      buf = resize (unat (preambleTLLen + preambleLen + frameTLLen)) buf
                  in (case read_into buffer_offset frameTLLen f buf of
                        Aborts \<Rightarrow> Aborts
                      | Returns (result, buf, f) \<Rightarrow>
                     (if Failure result then Returns (result, buf, f)
                      else
                        let frameLen = be32_at buf buffer_offset;
                            buffer_offset = buffer_offset + frameTLLen
                        in if frameLen > 0
                           then read_into buffer_offset frameLen f
                                  (resize (unat (preambleTLLen + preambleLen + frameTLLen + frameLen)) buf)
                           else Returns (result, buf, f))))))))"

text \<open>
  \<open>MXFReader::ReadFrame\<close>. The third component of the result is the \<open>frame\<close> handed
  back: the bytes of the frame buffer, or \<open>None\<close> when the call returns before \<open>frame\<close> is
  assigned. The handler of the \<open>try\<close> block calls \<open>Reset\<close> and returns the result thrown.
\<close>

definition ReadFrame ::
  "FrameIndex_t \<Rightarrow> ui32_t \<Rightarrow> MXFReader \<Rightarrow> (Result_t \<times> MXFReader \<times> byte_t list option) outcome" where
  "ReadFrame ty frame_number r =
     (if m_ReaderState r = ST_READER_BEGIN then Returns (RESULT_INIT, r, None)
      else if FrameIndex_ne ty frame_number (m_CurrentFrameIndex r)
      then
        (case m_Reader r of
           None \<Rightarrow> Aborts
         | Some h \<Rightarrow>
             let (result, index_entry) = Lookup frame_number (m_IndexAccess h)
             in if Failure result then Returns (result, MXFReader_Reset r, None)
                else
                  let (result, f) = File_Seek index_entry (m_ReaderFile h)
                  in if Failure result then Returns (result, MXFReader_Reset r, None)
                     else
                       (case ReadFrame_reads f (m_CurrentFrameBuffer r) of
                          Aborts \<Rightarrow> Aborts
                        | Returns (result, buf, f) \<Rightarrow>
                            let r = r\<lparr> m_CurrentFrameBuffer := buf,
                                       m_Reader := Some (h\<lparr> m_ReaderFile := f \<rparr>) \<rparr>
                            in if Failure result then Returns (result, MXFReader_Reset r, None)
                               else
                                 let r = r\<lparr> m_CurrentFrameIndex :=
                                              to_FrameIndex ty (uint frame_number) \<rparr>
                                 in Returns (result,
                                             r\<lparr> m_ReaderState := ST_READER_RUNNING \<rparr>,
                                             Some (m_CurrentFrameBuffer r))))
      else Returns (RESULT_OK, r\<lparr> m_ReaderState := ST_READER_RUNNING \<rparr>,
                    Some (m_CurrentFrameBuffer r)))"

section \<open>Opening a track file (h\_\_Reader.cpp)\<close>

text \<open>
  \<open>ASDCP::h__Reader\<close>. The partition parsers of \<open>MXF.cpp\<close> and opening the file are not
  among the source files and are parameters: a parser takes the file and the partition
  object and gives the result, the file as it leaves it and the object as filled.
\<close>

type_synonym RIP_Pair = "ui32_t \<times> ui64_t"

record OP1aHeader =
  m_RIP_PairArray :: "RIP_Pair list"
  FooterPartition :: ui64_t
  OperationalPattern :: UL

record Partition =
  ThisPartition :: ui64_t
  PreviousPartition :: ui64_t
  BodySID :: ui32_t

record h__Reader =
  m_DCPFile :: km_file
  m_DCPHeaderPart :: OP1aHeader
  m_BodyPart :: Partition
  m_EssenceStart :: ui64_t
  m_LastPosition :: ui64_t

record dcp_env =
  FileReader_OpenRead :: "string \<Rightarrow> km_file \<Rightarrow> Result_t \<times> km_file"
  OP1aHeader_InitFromFile :: "km_file \<Rightarrow> OP1aHeader \<Rightarrow> Result_t \<times> km_file \<times> OP1aHeader"
  Partition_InitFromFile :: "km_file \<Rightarrow> Partition \<Rightarrow> Result_t \<times> km_file \<times> Partition"

text \<open>
  \<open>h__Reader::OpenMXFRead\<close>. The result of the \<open>Seek\<close> to the body partition is not
  read by the source.
\<close>

definition OpenMXFRead :: "dcp_env \<Rightarrow> string \<Rightarrow> h__Reader \<Rightarrow> Result_t \<times> h__Reader" where
  "OpenMXFRead env filename h =
     (let h = h\<lparr> m_LastPosition := 0 \<rparr>;
          (result, f) = FileReader_OpenRead env filename (m_DCPFile h);
          h = h\<lparr> m_DCPFile := f \<rparr>;
          (result, h) =
            (if ASDCP_SUCCESS result
             then let (result, f, hp) = OP1aHeader_InitFromFile env (m_DCPFile h) (m_DCPHeaderPart h)
                  in (result, h\<lparr> m_DCPFile := f, m_DCPHeaderPart := hp \<rparr>)
             else (result, h))
      in if ASDCP_SUCCESS result
         then
           let (result, h) =
                 (if length (m_RIP_PairArray (m_DCPHeaderPart h)) = 3
                  then
                    let r_i = m_RIP_PairArray (m_DCPHeaderPart h) ! 1;
                        (seek_result, f) = File_Seek (snd r_i) (m_DCPFile h);
                        (result, f, bp) = Partition_InitFromFile env f (m_BodyPart h)
                    in (result, h\<lparr> m_DCPFile := f, m_BodyPart := bp \<rparr>)
                  else (result, h))
           in (result, h\<lparr> m_EssenceStart := File_Tell (m_DCPFile h) \<rparr>)
         else (result, h))"

section \<open>Sample inputs\<close>











text \<open>
  A reader on a file that holds one frame: four bytes of other data, then the preamble
  (tag 1, two bytes) and the frame (tag 2, three bytes), which the index places at
  offset 4.
\<close>

definition sample_rfile :: km_file where
  "sample_rfile =
     \<lparr> f_open = True,
       f_data = [9, 9, 9, 9, 1, 0, 0, 0, 2, 0xAA, 0xBB, 2, 0, 0, 0, 3, 1, 2, 3],
       f_pos = 0, f_capacity = 0, f_log = [] \<rparr>"

definition sample_h :: h__AS02Reader where
  "sample_h =
     \<lparr> m_ReaderFile = sample_rfile,
       m_IndexAccess = [4],
       m_HeaderPart = [MDD_IABEssenceDescriptor, MDD_IABSoundfieldLabelSubDescriptor, MDD_Track],
       m_ReaderInfo = \<lparr> LabelSetType = LS_MXF_SMPTE, AssetUUID = [], EncryptedEssence = False \<rparr> \<rparr>"

definition sample_renv :: reader_env where
  "sample_renv = \<lparr> AS02_OpenMXFRead = (\<lambda>filename. (RESULT_OK, sample_h)) \<rparr>"

definition sample_reader :: "FrameIndex_t \<Rightarrow> MXFReader" where
  "sample_reader ty = snd (OpenRead sample_renv ty ''clip.mxf'' (MXFReader_new 0))"

definition sample_frame :: "byte_t list" where
  "sample_frame = [1, 0, 0, 0, 2, 0xAA, 0xBB, 2, 0, 0, 0, 3, 1, 2, 3]"

definition sample_reader_after :: "FrameIndex_t \<Rightarrow> MXFReader" where
  "sample_reader_after ty =
     \<lparr> m_CurrentFrameBuffer = sample_frame,
       m_CurrentFrameIndex = 0,
       m_Reader = Some (sample_h\<lparr> m_ReaderFile := sample_rfile
                         \<lparr> f_pos := 19,
                           f_log := [IO_Seek 4, IO_Read 5, IO_Read 2, IO_Read 5, IO_Read 3] \<rparr> \<rparr>),
       m_ReaderState = ST_READER_RUNNING \<rparr>"

text \<open>
  A writer environment whose header writer emits four bytes, on a device with room for
  200 bytes, and the writer states of a session that writes frames of 10, 20 and 30
  bytes and finalizes the clip. \<open>writer_inv\<close> is the invariant of an open writer that the
  proofs carry: the file is open, its position is \<open>m_ClipStart + 24 + S\<close> and within
  \<open>max_fpos\<close>, and \<open>m_StreamOffset\<close> is \<open>24 + S\<close>, for \<open>S\<close> bytes of frames written.
\<close>

definition sample_ul :: UL where
  "sample_ul = [0x06, 0x0e, 0x2b, 0x34, 0x01, 0x02, 0x01, 0x05,
                0x0e, 0x09, 0x06, 0x07, 0x01, 0x01, 0x01, 0x00]"

definition sample_wfile :: km_file where
  "sample_wfile = \<lparr> f_open = True, f_data = [], f_pos = 0, f_capacity = 200, f_log = [] \<rparr>"

definition sample_header :: "byte_t list" where
  "sample_header = [0x48, 0x44, 0x52, 0x00]"

definition sample_wenv :: writer_env where
  "sample_wenv =
     \<lparr> Dict_ul = (\<lambda>m. sample_ul),
       GenRandomValue = (\<lambda>i. [of_nat i]),
       h__Writer_new =
         \<lparr> m_Info = \<lparr> LabelSetType = LS_MXF_SMPTE, AssetUUID = [], EncryptedEssence = False \<rparr>,
           m_HeaderSize = 0,
           m_File = closed_file,
           m_EssenceDescriptor = None,
           m_EssenceSubDescriptorList = [],
           m_IndexWriter = \<lparr> m_EditRate = (0, 1), IndexEntryArray = [] \<rparr>,
           m_FramesWritten = 0,
           m_StreamOffset = 0 \<rparr>,
       FileWriter_OpenWrite = (\<lambda>filename. (RESULT_OK, sample_wfile)),
       WriteAS02Header =
         (\<lambda>ul edit_rate conformsToSpecs h.
            case File_Write sample_header (m_File h) of (r, f) \<Rightarrow> (r, h\<lparr> m_File := f \<rparr>)),
       WriteAS02Footer = (\<lambda>h. (RESULT_OK, h)) \<rparr>"

definition sample_sub :: IABSoundfieldLabelSubDescriptor where
  "sample_sub =
     \<lparr> SubInstanceUID = [], MCATagName = [], MCATagSymbol = [], MCALabelDictionaryID = [],
       MCALinkID = [] \<rparr>"

definition sample_w1 :: MXFWriter where
  "sample_w1 =
     snd (OpenWrite sample_wenv ''out.mxf'' (m_Info (h__Writer_new sample_wenv)) sample_sub []
            (24, 1) (48000, 1) MXFWriter_new)"

definition sample_frames :: "(byte_t list \<times> ui32_t) list" where
  "sample_frames = [(replicate 10 1, 10), (replicate 20 2, 20), (replicate 30 3, 30)]"

definition writer_inv :: "MXFWriter \<Rightarrow> nat \<Rightarrow> bool" where
  "writer_inv w S =
     (m_State w \<noteq> ST_BEGIN \<and>
      (case m_Writer w of
         None \<Rightarrow> False
       | Some h \<Rightarrow>
           f_open (m_File h)
           \<and> f_pos (m_File h) = unat (m_ClipStart w) + 24 + S
           \<and> f_pos (m_File h) \<le> max_fpos
           \<and> unat (m_StreamOffset h) = 24 + S))"

definition sample_clip_kl :: "byte_t list" where
  "sample_clip_kl = [0x06, 0x0e, 0x2b, 0x34, 0x01, 0x02, 0x01, 0x05,
                     0x0e, 0x09, 0x06, 0x07, 0x01, 0x01, 0x01, 0x01,
                     0x87, 0, 0, 0, 0, 0, 0, 0]"

definition sample_h1 :: h__Writer where
  "sample_h1 =
     \<lparr> m_Info = \<lparr> LabelSetType = LS_MXF_SMPTE, AssetUUID = [], EncryptedEssence = False \<rparr>,
       m_HeaderSize = 16384,
       m_File = \<lparr> f_open = True, f_data = sample_header @ sample_clip_kl, f_pos = 28,
                  f_capacity = 200,
                  f_log = [IO_Write sample_header, IO_Write sample_clip_kl] \<rparr>,
       m_EssenceDescriptor =
         Some \<lparr> InstanceUID = [0], SampleRate = (24, 1), AudioSamplingRate = (48000, 1),
                ChannelCount = 0, SoundEssenceCoding = sample_ul, QuantizationBits = 24,
                SubDescriptors = [[1]] \<rparr>,
       m_EssenceSubDescriptorList =
         [\<lparr> SubInstanceUID = [1], MCATagName = ''IAB'', MCATagSymbol = ''IAB'',
            MCALabelDictionaryID = sample_ul, MCALinkID = [2] \<rparr>],
       m_IndexWriter = \<lparr> m_EditRate = (24, 1), IndexEntryArray = [] \<rparr>,
       m_FramesWritten = 0,
       m_StreamOffset = 24 \<rparr>"

definition sample_writer_at ::
  "byte_t list \<Rightarrow> io_call list \<Rightarrow> nat \<Rightarrow> ui64_t list \<Rightarrow> ui32_t \<Rightarrow> ui64_t \<Rightarrow> MXFWriter" where
  "sample_writer_at data calls pos entries n off =
     \<lparr> m_ClipStart = 4, m_State = ST_RUNNING, m_GenericStreamID = 2, m_NextTrackID = 2,
       m_Writer = Some (sample_h1
         \<lparr> m_File := \<lparr> f_open = True, f_data = data, f_pos = pos, f_capacity = 200,
                       f_log = [IO_Write sample_header, IO_Write sample_clip_kl] @ calls \<rparr>,
           m_IndexWriter := \<lparr> m_EditRate = (24, 1), IndexEntryArray = entries \<rparr>,
           m_FramesWritten := n,
           m_StreamOffset := off \<rparr>) \<rparr>"

definition sample_w2 :: MXFWriter where
  "sample_w2 = sample_writer_at (sample_header @ sample_clip_kl @ replicate 10 1)
                 [IO_Write (replicate 10 1)] 38 [24] 1 34"

definition sample_w3 :: MXFWriter where
  "sample_w3 = sample_writer_at (sample_header @ sample_clip_kl @ replicate 10 1 @ replicate 20 2)
                 [IO_Write (replicate 10 1), IO_Write (replicate 20 2)] 58 [24, 34] 2 54"

definition sample_w4 :: MXFWriter where
  "sample_w4 = sample_writer_at
                 (sample_header @ sample_clip_kl @ replicate 10 1 @ replicate 20 2 @ replicate 30 3)
                 [IO_Write (replicate 10 1), IO_Write (replicate 20 2), IO_Write (replicate 30 3)]
                 88 [24, 34, 54] 3 84"

definition sample_w5 :: MXFWriter where
  "sample_w5 = sample_writer_at
                 (sample_header @ take 16 sample_clip_kl @ [0x87, 0, 0, 0, 0, 0, 0, 60]
                    @ replicate 10 1 @ replicate 20 2 @ replicate 30 3)
                 [IO_Write (replicate 10 1), IO_Write (replicate 20 2), IO_Write (replicate 30 3),
                  IO_Seek 20, IO_Write [0x87, 0, 0, 0, 0, 0, 0, 60], IO_Seek 88]
                 88 [24, 34, 54] 3 84"

text \<open>
  A track file reader environment whose header parser ends at position 50 and leaves a
  given RIP, and whose body partition parser reads ten bytes and records where it started.
\<close>

definition sample_dfile :: km_file where
  "sample_dfile = \<lparr> f_open = True, f_data = [], f_pos = 0, f_capacity = 0, f_log = [] \<rparr>"

definition sample_denv :: "RIP_Pair list \<Rightarrow> dcp_env" where
  "sample_denv pairs =
     \<lparr> FileReader_OpenRead = (\<lambda>filename f. (RESULT_OK, sample_dfile)),
       OP1aHeader_InitFromFile =
         (\<lambda>f hp. (RESULT_OK, f\<lparr> f_pos := 50 \<rparr>, hp\<lparr> m_RIP_PairArray := pairs \<rparr>)),
       Partition_InitFromFile =
         (\<lambda>f bp. (RESULT_OK, f\<lparr> f_pos := f_pos f + 10 \<rparr>, bp\<lparr> ThisPartition := of_nat (f_pos f) \<rparr>)) \<rparr>"

definition sample_dreader :: h__Reader where
  "sample_dreader =
     \<lparr> m_DCPFile = closed_file,
       m_DCPHeaderPart = \<lparr> m_RIP_PairArray = [], FooterPartition = 0, OperationalPattern = [] \<rparr>,
       m_BodyPart = \<lparr> ThisPartition = 0, PreviousPartition = 0, BodySID = 0 \<rparr>,
       m_EssenceStart = 0,
       m_LastPosition = 7 \<rparr>"

section \<open>Key derivation\<close>


lemma BN_bin2bn_append: "BN_bin2bn (xs @ [b]) = BN_bin2bn xs * 256 + uint b"
  by (simp add: BN_bin2bn_def)

lemma BN_bin2bn_bn2bin_nat: "BN_bin2bn (bn2bin_nat n) = int n"
proof (induction n rule: bn2bin_nat.induct)
  case (1 n)
  show ?case
  proof (cases "n = 0")
    case True
    then show ?thesis by (simp add: bn2bin_nat.simps BN_bin2bn_def)
  next
    case False
    have "uint (of_nat (n mod 256) :: byte_t) = int (n mod 256)"
      by (simp add: unsigned_of_nat take_bit_eq_mod)
    with False "1.IH" show ?thesis
      by (subst bn2bin_nat.simps) (simp add: BN_bin2bn_append zdiv_int zmod_int)
  qed
qed

text \<open>
  The bytes \<open>BN_bn2bin\<close> writes encode the integer exactly: nothing of the sum is lost
  between the addition and the second hash.
\<close>

lemma BN_bin2bn_bn2bin: "0 \<le> x \<Longrightarrow> BN_bin2bn (BN_bn2bin x) = x"
  by (simp add: BN_bn2bin_def BN_bin2bn_bn2bin_nat)











section \<open>HMAC state machine\<close>

lemma h__HMACContext_Reset_Final [simp]: "\<not> m_Final (h__HMACContext_Reset c)"
  by (simp add: h__HMACContext_Reset_def)












section \<open>AES-CBC round trip\<close>

lemma length_xor_buf [simp]: "length (xor_buf a b n) = n"
  by (simp add: xor_buf_def)











section \<open>IAB reader\<close>

lemma uint_ui32_bounds:
  fixes w :: ui32_t
  shows "0 \<le> uint w" and "uint w < 4294967296"
  using uint_lt2p [of w] by simp_all

lemma FrameIndex_stored:
  "\<not> FrameIndex_ne ty frame_number (to_FrameIndex ty (uint frame_number))"
proof -
  let ?k = "uint frame_number"
  have lo: "- 9223372036854775808 \<le> ?k" and hi: "?k < 9223372036854775808"
    using uint_ui32_bounds [of frame_number] by linarith+
  have t32: "take_bit 32 ?k = ?k"
    using uint_ui32_bounds [of frame_number] by (simp add: take_bit_int_eq_self)
  have t64: "take_bit 64 ?k = ?k"
    using uint_ui32_bounds [of frame_number] by (simp add: take_bit_int_eq_self)
  have s63: "signed_take_bit 63 ?k = ?k"
    using lo hi by (simp add: signed_take_bit_int_eq_self)
  have s31: "take_bit 32 (signed_take_bit 31 ?k) = ?k"
    using t32 by (simp add: take_bit_signed_take_bit)
  show ?thesis
    by (cases ty) (simp_all add: FrameIndex_ne_def to_FrameIndex_def t32 t64 s63 s31)
qed

lemma sentinel_32:
  "ty = T_ui32 \<or> ty = T_i32 \<Longrightarrow> \<not> FrameIndex_ne ty 0xFFFFFFFF (to_FrameIndex ty (- 1))"
  by (auto simp: FrameIndex_ne_def to_FrameIndex_def take_bit_signed_take_bit mask_eq_exp_minus_1)

lemma sentinel_64:
  assumes "ty = T_i64 \<or> ty = T_ui64"
  shows "FrameIndex_ne ty frame_number (to_FrameIndex ty (- 1))"
proof -
  have "uint frame_number \<noteq> - 1"
    using uint_ui32_bounds(1) [of frame_number] by linarith
  moreover have "uint frame_number \<noteq> 18446744073709551615"
    using uint_ui32_bounds(2) [of frame_number] by linarith
  ultimately show ?thesis
    using assms by (auto simp: FrameIndex_ne_def to_FrameIndex_def mask_eq_exp_minus_1)
qed

lemma sample_reader_eq:
  "sample_reader ty =
     \<lparr> m_CurrentFrameBuffer = [], m_CurrentFrameIndex = to_FrameIndex ty (- 1),
       m_Reader = Some sample_h, m_ReaderState = ST_READER_READY \<rparr>"
  by (simp add: sample_reader_def OpenRead_def sample_renv_def MXFReader_new_def Failure_def
        GetMDObjectByType_def sample_h_def)

lemma sentinel_ne_0: "FrameIndex_ne ty 0 (to_FrameIndex ty (- 1))"
  by (cases ty) (simp_all add: FrameIndex_ne_def to_FrameIndex_def take_bit_signed_take_bit mask_eq_exp_minus_1)

lemma to_FrameIndex_0: "to_FrameIndex ty 0 = 0"
  by (cases ty) (simp_all add: to_FrameIndex_def)

lemma sample_reads:
  "ReadFrame_reads (sample_rfile\<lparr> f_log := [IO_Seek 4], f_pos := 4 \<rparr>) []
     = Returns (RESULT_OK, sample_frame,
         sample_rfile\<lparr> f_pos := 19,
                        f_log := [IO_Seek 4, IO_Read 5, IO_Read 2, IO_Read 5, IO_Read 3] \<rparr>)"
  by (simp add: ReadFrame_reads_def read_into_def resize_def File_Read_def be32_at_def Let_def
        sample_rfile_def sample_frame_def Failure_def)

lemma sample_h_fields:
  "m_ReaderFile sample_h = sample_rfile" "m_IndexAccess sample_h = [4]"
  by (simp_all add: sample_h_def)

lemma sample_frame0:
  "ReadFrame ty 0 (sample_reader ty) = Returns (RESULT_OK, sample_reader_after ty, Some sample_frame)"
proof -
  have seek: "File_Seek 4 sample_rfile = (RESULT_OK, sample_rfile\<lparr> f_log := [IO_Seek 4], f_pos := 4 \<rparr>)"
    by (simp add: File_Seek_def sample_rfile_def)
  show ?thesis
    by (simp add: sample_reader_eq ReadFrame_def sentinel_ne_0 Lookup_def Failure_def seek
          sample_reads to_FrameIndex_0 sample_reader_after_def sample_h_fields)
qed

lemma ReadFrame_lookup_fails:
  assumes "m_ReaderState r \<noteq> ST_READER_BEGIN"
      and "m_Reader r = Some h"
      and "length (m_IndexAccess h) \<le> unat frame_number"
      and "FrameIndex_ne ty frame_number (m_CurrentFrameIndex r)"
  shows "ReadFrame ty frame_number r = Returns (RESULT_RANGE, MXFReader_Reset r, None)"
  using assms by (simp add: ReadFrame_def Lookup_def Failure_def)

lemma ReadFrame_after_Reset:
  "ReadFrame ty frame_number (MXFReader_Reset r) = Returns (RESULT_INIT, MXFReader_Reset r, None)"
  by (simp add: ReadFrame_def MXFReader_Reset_def)

text \<open>
  C1 as stated fails. The sample reader is \<open>READY\<close> with one index entry; \<open>ReadFrame\<close> for
  frame 5 returns \<open>RESULT_RANGE\<close>, but the reader it leaves is not the reader before the
  call: its state is \<open>BEGIN\<close>, its \<open>h__Reader\<close> is gone, and reading frame 0, which the file
  holds, now returns \<open>RESULT_INIT\<close>.
\<close>

theorem C1_ReadFrame_out_of_range_counterexample:
  "m_ReaderState (sample_reader T_i64) = ST_READER_READY
   \<and> GetFrameCount (sample_reader T_i64) = Returns (RESULT_OK, Some 1)
   \<and> (1 :: ui32_t) \<le> 5
   \<and> ReadFrame T_i64 5 (sample_reader T_i64)
       = Returns (RESULT_RANGE, MXFReader_Reset (sample_reader T_i64), None)
   \<and> m_ReaderState (MXFReader_Reset (sample_reader T_i64)) = ST_READER_BEGIN
   \<and> m_Reader (MXFReader_Reset (sample_reader T_i64)) = None
   \<and> MXFReader_Reset (sample_reader T_i64) \<noteq> sample_reader T_i64
   \<and> ReadFrame T_i64 0 (MXFReader_Reset (sample_reader T_i64))
       = Returns (RESULT_INIT, MXFReader_Reset (sample_reader T_i64), None)"
proof -
  have ne: "FrameIndex_ne T_i64 5 (to_FrameIndex T_i64 (- 1))"
    by (rule sentinel_64) simp
  have rf: "ReadFrame T_i64 5 (sample_reader T_i64)
       = Returns (RESULT_RANGE, MXFReader_Reset (sample_reader T_i64), None)"
    by (rule ReadFrame_lookup_fails [where h = sample_h])
       (simp_all add: sample_reader_eq sample_h_fields ne)
  have "MXFReader_Reset (sample_reader T_i64) \<noteq> sample_reader T_i64"
    by (simp add: sample_reader_eq MXFReader_Reset_def)
  with rf show ?thesis
    by (simp add: ReadFrame_after_Reset)
       (simp add: sample_reader_eq MXFReader_Reset_def GetFrameCount_def GetDuration_def sample_h_fields)
qed

text \<open>
  C1, as the code has it. On a reader that is open (state \<open>READY\<close> or \<open>RUNNING\<close>, with its
  \<open>h__Reader\<close>), \<open>ReadFrame\<close> with a frame number that is not below the number of index
  entries, and that is not the cached frame index, returns the error of the index lookup,
  \<open>RESULT_RANGE\<close>. The cached frame index and the cached buffer stay as they were, but
  the handler resets the reader: \<open>m_Reader\<close> is released and the state is \<open>BEGIN\<close>, so
  every later \<open>ReadFrame\<close> returns \<open>RESULT_INIT\<close> until the file is opened again.
\<close>

theorem C1_ReadFrame_out_of_range:
  assumes "m_ReaderState r \<noteq> ST_READER_BEGIN"
      and "m_Reader r = Some h"
      and "length (m_IndexAccess h) \<le> unat frame_number"
      and "FrameIndex_ne ty frame_number (m_CurrentFrameIndex r)"
  shows "ReadFrame ty frame_number r
           = Returns (RESULT_RANGE, r\<lparr> m_Reader := None, m_ReaderState := ST_READER_BEGIN \<rparr>, None)
       \<and> ReadFrame ty n (r\<lparr> m_Reader := None, m_ReaderState := ST_READER_BEGIN \<rparr>)
           = Returns (RESULT_INIT, r\<lparr> m_Reader := None, m_ReaderState := ST_READER_BEGIN \<rparr>, None)"
  using ReadFrame_lookup_fails [OF assms] ReadFrame_after_Reset [of ty n r]
  by (simp add: MXFReader_Reset_def)

theorem C1_ReadFrame_out_of_range_witness:
  "m_ReaderState (sample_reader T_ui32) \<noteq> ST_READER_BEGIN
   \<and> m_Reader (sample_reader T_ui32) = Some sample_h
   \<and> length (m_IndexAccess sample_h) \<le> unat (5 :: ui32_t)
   \<and> FrameIndex_ne T_ui32 5 (m_CurrentFrameIndex (sample_reader T_ui32))
   \<and> ReadFrame T_ui32 5 (sample_reader T_ui32)
       = Returns (RESULT_RANGE,
           \<lparr> m_CurrentFrameBuffer = [], m_CurrentFrameIndex = 4294967295, m_Reader = None,
             m_ReaderState = ST_READER_BEGIN \<rparr>, None)"
proof -
  have 1: "m_ReaderState (sample_reader T_ui32) \<noteq> ST_READER_BEGIN"
    by (simp add: sample_reader_eq)
  have 2: "m_Reader (sample_reader T_ui32) = Some sample_h"
    by (simp add: sample_reader_eq)
  have 3: "length (m_IndexAccess sample_h) \<le> unat (5 :: ui32_t)"
    by (simp add: sample_h_fields)
  have 4: "FrameIndex_ne T_ui32 5 (m_CurrentFrameIndex (sample_reader T_ui32))"
    by (simp add: sample_reader_eq FrameIndex_ne_def to_FrameIndex_def mask_eq_exp_minus_1)
  from C1_ReadFrame_out_of_range [OF 1 2 3 4, of 0] 1 2 3 4 show ?thesis
    by (simp add: sample_reader_eq to_FrameIndex_def mask_eq_exp_minus_1)
qed

lemma OpenRead_OK:
  assumes "OpenRead env ty filename r0 = (RESULT_OK, r1)"
  shows "\<exists>h. r1 = r0\<lparr> m_Reader := Some h, m_CurrentFrameIndex := to_FrameIndex ty (- 1),
                      m_ReaderState := ST_READER_READY \<rparr>"
  using assms
  by (auto simp: OpenRead_def Let_def Failure_def split: if_splits prod.splits)

text \<open>
  The sentinel \<open>-1\<close> that \<open>OpenRead\<close> stores and frame number 4294967295. What
  \<open>ReadFrame\<close> does with that frame number right after \<open>OpenRead\<close> depends on the type
  of \<open>m_CurrentFrameIndex\<close>, which the source files do not fix. With a 32-bit field the
  comparison is made in \<open>unsigned int\<close>, the two are equal and the cached branch is taken:
  no lookup, no file access, \<open>RESULT_OK\<close> with the buffer as it is. With a 64-bit field
  the sentinel equals no frame number, the index lookup fails and the reader is reset.
\<close>

lemma ReadFrame_sentinel_narrow:
  assumes "ty = T_ui32 \<or> ty = T_i32"
      and "OpenRead env ty filename r0 = (RESULT_OK, r1)"
      and "m_CurrentFrameBuffer r0 = []"
  shows "m_CurrentFrameIndex r1 = to_FrameIndex ty (- 1)
       \<and> ReadFrame ty 4294967295 r1
           = Returns (RESULT_OK, r1\<lparr> m_ReaderState := ST_READER_RUNNING \<rparr>, Some [])"
proof -
  from OpenRead_OK [OF assms(2)] obtain h where
    r1: "r1 = r0\<lparr> m_Reader := Some h, m_CurrentFrameIndex := to_FrameIndex ty (- 1),
                    m_ReaderState := ST_READER_READY \<rparr>"
    by blast
  from sentinel_32 [OF assms(1)] r1 assms(3) show ?thesis
    by (simp add: ReadFrame_def)
qed

lemma ReadFrame_sentinel_wide:
  assumes "ty = T_i64 \<or> ty = T_ui64"
      and "OpenRead env ty filename r0 = (RESULT_OK, r1)"
      and "m_Reader r1 = Some h"
      and "length (m_IndexAccess h) \<le> 4294967295"
  shows "ReadFrame ty 4294967295 r1 = Returns (RESULT_RANGE, MXFReader_Reset r1, None)"
proof -
  from OpenRead_OK [OF assms(2)] obtain h' where
    r1: "r1 = r0\<lparr> m_Reader := Some h', m_CurrentFrameIndex := to_FrameIndex ty (- 1),
                    m_ReaderState := ST_READER_READY \<rparr>"
    by blast
  show ?thesis
    using assms(3,4) sentinel_64 [OF assms(1), of 4294967295]
    by (intro ReadFrame_lookup_fails [where h = h]) (simp_all add: r1)
qed

lemma ReadFrame_OK_D:
  assumes "ReadFrame ty k r = Returns (RESULT_OK, r', frame)"
  shows "m_ReaderState r' = ST_READER_RUNNING
       \<and> \<not> FrameIndex_ne ty k (m_CurrentFrameIndex r')
       \<and> frame = Some (m_CurrentFrameBuffer r')"
  using assms
  by (auto simp: ReadFrame_def Let_def Failure_def FrameIndex_stored
           split: if_splits option.splits prod.splits outcome.splits)

lemma read_into_log:
  assumes "read_into buffer_offset len f buf = Returns (res, buf', f')"
  shows "length (f_log f) \<le> length (f_log f')"
  using assms
  by (auto simp: read_into_def File_Read_def Let_def split: if_splits)

lemma ReadFrame_reads_log:
  assumes "ReadFrame_reads f buf = Returns (res, buf', f')"
  shows "length (f_log f) \<le> length (f_log f')"
  using assms unfolding ReadFrame_reads_def Let_def
  by (auto split: outcome.splits if_splits dest!: read_into_log)

lemma File_Seek_log:
  assumes "File_Seek p f = (RESULT_OK, f')"
  shows "length (f_log f') = Suc (length (f_log f))"
  using assms by (auto simp: File_Seek_def Let_def split: if_splits)

lemma ReadFrame_miss_io:
  assumes "ReadFrame ty k r = Returns (RESULT_OK, r', frame)"
      and "FrameIndex_ne ty k (m_CurrentFrameIndex r)"
  shows "\<exists>h h'. m_Reader r = Some h \<and> m_Reader r' = Some h'
           \<and> length (f_log (m_ReaderFile h)) < length (f_log (m_ReaderFile h'))"
proof -
  from assms have st: "m_ReaderState r \<noteq> ST_READER_BEGIN"
    by (auto simp: ReadFrame_def)
  from assms st obtain h where h: "m_Reader r = Some h"
    by (cases "m_Reader r") (auto simp: ReadFrame_def)
  obtain lr off where lk: "Lookup k (m_IndexAccess h) = (lr, off)"
    by (cases "Lookup k (m_IndexAccess h)")
  obtain sr f1 where sk: "File_Seek off (m_ReaderFile h) = (sr, f1)"
    by (cases "File_Seek off (m_ReaderFile h)")
  from assms st h lk sk have ok: "lr = RESULT_OK" "sr = RESULT_OK"
    by (auto simp: ReadFrame_def Failure_def split: if_splits)
  from assms st h lk sk ok obtain res buf f2 where
    rd: "ReadFrame_reads f1 (m_CurrentFrameBuffer r) = Returns (res, buf, f2)"
    by (cases "ReadFrame_reads f1 (m_CurrentFrameBuffer r)")
       (auto simp: ReadFrame_def Failure_def)
  from assms st h lk sk ok rd have "m_Reader r' = Some (h\<lparr> m_ReaderFile := f2 \<rparr>)"
    by (auto simp: ReadFrame_def Failure_def Let_def split: if_splits)
  moreover from File_Seek_log sk ok ReadFrame_reads_log [OF rd]
  have "length (f_log (m_ReaderFile h)) < length (f_log f2)"
    by fastforce
  ultimately show ?thesis
    using h by simp
qed

text \<open>
  C9. When \<open>ReadFrame\<close> has just returned \<open>RESULT_OK\<close> for frame \<open>k\<close>, a second
  \<open>ReadFrame\<close> for \<open>k\<close> returns \<open>RESULT_OK\<close> with the same buffer contents and leaves the
  whole reader as it was: the file position, the log of calls on the file (no seek, no
  read), the cached frame index and the cached buffer. If \<open>k\<close> was not the cached frame
  before the first call, that call is the one that made calls on the file.
\<close>

theorem C9_ReadFrame_cached:
  assumes "ReadFrame ty k r = Returns (RESULT_OK, r', frame)"
  shows "frame = Some (m_CurrentFrameBuffer r')
       \<and> ReadFrame ty k r' = Returns (RESULT_OK, r', Some (m_CurrentFrameBuffer r'))
       \<and> (FrameIndex_ne ty k (m_CurrentFrameIndex r) \<longrightarrow>
            (\<exists>h h'. m_Reader r = Some h \<and> m_Reader r' = Some h'
               \<and> length (f_log (m_ReaderFile h)) < length (f_log (m_ReaderFile h'))))"
proof -
  from ReadFrame_OK_D [OF assms] have
    st: "m_ReaderState r' = ST_READER_RUNNING" and
    eq: "\<not> FrameIndex_ne ty k (m_CurrentFrameIndex r')" and
    fr: "frame = Some (m_CurrentFrameBuffer r')"
    by simp_all
  have "r'\<lparr> m_ReaderState := ST_READER_RUNNING \<rparr> = r'"
    using st by simp
  with st eq have "ReadFrame ty k r' = Returns (RESULT_OK, r', Some (m_CurrentFrameBuffer r'))"
    by (simp add: ReadFrame_def)
  with fr ReadFrame_miss_io [OF assms] show ?thesis
    by blast
qed

theorem C9_ReadFrame_cached_witness:
  "ReadFrame T_i64 0 (sample_reader T_i64)
     = Returns (RESULT_OK, sample_reader_after T_i64, Some sample_frame)
   \<and> ReadFrame T_i64 0 (sample_reader_after T_i64)
     = Returns (RESULT_OK, sample_reader_after T_i64, Some sample_frame)
   \<and> FrameIndex_ne T_i64 0 (m_CurrentFrameIndex (sample_reader T_i64))
   \<and> map_option (f_log \<circ> m_ReaderFile) (m_Reader (sample_reader T_i64)) = Some []
   \<and> map_option (f_log \<circ> m_ReaderFile) (m_Reader (sample_reader_after T_i64))
       = Some [IO_Seek 4, IO_Read 5, IO_Read 2, IO_Read 5, IO_Read 3]"
proof -
  have b: "m_CurrentFrameBuffer (sample_reader_after T_i64) = sample_frame"
    by (simp add: sample_reader_after_def)
  have n: "FrameIndex_ne T_i64 0 (m_CurrentFrameIndex (sample_reader T_i64))"
    by (simp add: sample_reader_eq sentinel_ne_0)
  from C9_ReadFrame_cached [OF sample_frame0 [of T_i64]] sample_frame0 [of T_i64] b n
  show ?thesis
    by (simp add: sample_reader_eq sample_reader_after_def sample_h_fields sample_rfile_def)
qed

section \<open>IAB writer\<close>

lemma be_bytes_numeral:
  "be_bytes (numeral k) v = be_bytes (pred_numeral k) (v div 256) @ [of_nat (v mod 256)]"
  by (simp only: numeral_eq_Suc [of k] be_bytes.simps)

lemma write_BER_0: "write_BER 0 8 = Some [0x87, 0, 0, 0, 0, 0, 0, 0]"
  by (simp add: write_BER_def be_bytes_numeral)

lemma sample_open: "fst (OpenWrite sample_wenv ''out.mxf'' (m_Info (h__Writer_new sample_wenv)) sample_sub []
            (24, 1) (48000, 1) MXFWriter_new) = RESULT_OK"
  by (simp add: OpenWrite_def MXFWriter_new_def sample_wenv_def Failure_def Let_def sample_wfile_def
      File_Write_def sample_header_def File_Tell_def write_BER_0 sample_ul_def SMPTE_UL_LENGTH_def
      RESERVED_KL_SIZE_def CLIP_BER_LENGTH_SIZE_def max_fpos_def)

lemma length_be_bytes [simp]: "length (be_bytes n v) = n"
  by (induction n arbitrary: v) simp_all

lemma be_value_append: "be_value (xs @ [b]) = be_value xs * 256 + unat b"
  by (simp add: be_value_def)

lemma be_value_be_bytes: "v < 256 ^ n \<Longrightarrow> be_value (be_bytes n v) = v"
proof (induction n arbitrary: v)
  case 0
  then show ?case by (simp add: be_value_def)
next
  case (Suc n)
  from Suc.prems have "v div 256 < 256 ^ n"
    by (simp add: less_mult_imp_div_less mult.commute)
  from Suc.IH [OF this] have "be_value (be_bytes n (v div 256)) = v div 256" .
  moreover have "unat (of_nat (v mod 256) :: byte_t) = v mod 256"
    by (simp add: unat_of_nat)
  ultimately show ?case
    by (simp add: be_value_append)
qed

lemma write_BER_8:
  assumes "write_BER val CLIP_BER_LENGTH_SIZE = Some bs"
  shows "bs = 0x87 # be_bytes 7 (unat val)" and "unat val < 256 ^ 7" and "length bs = 8"
  using assms by (auto simp: write_BER_def CLIP_BER_LENGTH_SIZE_def split: if_splits)

lemma read_BER_long_7:
  assumes "v < 256 ^ 7"
  shows "read_BER (0x87 # be_bytes 7 v) = Some v"
proof -
  have "unat ((0x87 :: byte_t) AND 0x7f) = 7"
    by simp
  moreover have "\<not> (0x87 :: byte_t) < 0x80"
    by simp
  ultimately show ?thesis
    using be_value_be_bytes [OF assms] by (simp add: read_BER_def)
qed

lemma File_Write_OK:
  assumes "File_Write bs f = (RESULT_OK, f')"
  shows "f_open f" and "f_open f'" and "f_pos f' = f_pos f + length bs" and "f_pos f' \<le> max_fpos"
    and "f_log f' = f_log f @ [IO_Write bs]"
    and "f_data f' = take (f_pos f) (f_data f @ replicate (f_pos f - length (f_data f)) 0)
                       @ bs @ drop (f_pos f + length bs) (f_data f)"
  using assms by (auto simp: File_Write_def Let_def split: if_splits)

lemma OpenWrite_OK:
  assumes "OpenWrite env filename Info sub conformsToSpecs edit_rate sample_rate w0 = (RESULT_OK, w1)"
  shows "m_State w1 = ST_READY"
    and "\<exists>h. m_Writer w1 = Some h \<and> m_StreamOffset h = 24"
  using assms
  by (auto simp: OpenWrite_def Let_def Failure_def RESERVED_KL_SIZE_def SMPTE_UL_LENGTH_def
        CLIP_BER_LENGTH_SIZE_def MXFWriter_Reset_def
      split: if_splits prod.splits option.splits)

lemma OpenWrite_OK_inv:
  assumes op: "OpenWrite env filename Info sub conformsToSpecs edit_rate sample_rate w0 = (RESULT_OK, w1)"
      and ul: "length (Dict_ul env MDD_IMF_IABEssenceClipWrappedElement) = SMPTE_UL_LENGTH"
  shows "writer_inv w1 0"
proof -
  obtain r0 f0 where o: "FileWriter_OpenWrite env filename = (r0, f0)"
    by (cases "FileWriter_OpenWrite env filename")
  let ?el = "(take SMPTE_UL_LENGTH (Dict_ul env MDD_IMF_IABEssenceClipWrappedElement))[15 := 1, 13 := 1]"
  define h0 where "h0 = (h__Writer_new env)\<lparr> m_Info := Info, m_HeaderSize := 16 * 1024, m_File := f0 \<rparr>"
  define hd where "hd = h0\<lparr> m_EssenceDescriptor :=
        Some (\<lparr> InstanceUID = GenRandomValue env 0, SampleRate = edit_rate,
                 AudioSamplingRate = sample_rate, ChannelCount = 0,
                 SoundEssenceCoding = Dict_ul env MDD_ImmersiveAudioCoding,
                 QuantizationBits = 24,
                 SubDescriptors = [] @ [GenRandomValue env 1] \<rparr>),
      m_EssenceSubDescriptorList := m_EssenceSubDescriptorList h0 @
        [sub\<lparr> SubInstanceUID := GenRandomValue env 1, MCATagName := ''IAB'', MCATagSymbol := ''IAB'',
              MCALabelDictionaryID := Dict_ul env MDD_IABSoundfield,
              MCALinkID := GenRandomValue env 2 \<rparr>],
      m_IndexWriter := (m_IndexWriter h0)\<lparr> m_EditRate := edit_rate \<rparr> \<rparr>"
  obtain r1 h1 where hw: "WriteAS02Header env ?el edit_rate conformsToSpecs hd = (r1, h1)"
    by (cases "WriteAS02Header env ?el edit_rate conformsToSpecs hd")
  obtain ber where ber: "write_BER 0 CLIP_BER_LENGTH_SIZE = Some ber"
    by (simp add: write_BER_def CLIP_BER_LENGTH_SIZE_def)
  have lber: "length ber = 8"
    using write_BER_8(3) [OF ber] .
  obtain r2 f2 where fw: "File_Write (take RESERVED_KL_SIZE (?el @ ber)) (m_File h1) = (r2, f2)"
    by (cases "File_Write (take RESERVED_KL_SIZE (?el @ ber)) (m_File h1)")
  from op o hw ber fw have ok: "r0 = RESULT_OK" "r1 = RESULT_OK" "r2 = RESULT_OK"
    and w1: "w1 = w0\<lparr> m_ClipStart := File_Tell (m_File h1),
                       m_Writer := Some (h1\<lparr> m_File := f2, m_StreamOffset := of_nat RESERVED_KL_SIZE \<rparr>),
                       m_State := ST_READY \<rparr>"
    by (auto simp: OpenWrite_def Let_def Failure_def MXFWriter_Reset_def h0_def hd_def
             split: if_splits)
  have len: "length (take RESERVED_KL_SIZE (?el @ ber)) = 24"
    using ul lber by (simp add: RESERVED_KL_SIZE_def SMPTE_UL_LENGTH_def CLIP_BER_LENGTH_SIZE_def)
  note fwok = fw [unfolded ok]
  have f2: "f_open f2" "f_pos f2 = f_pos (m_File h1) + 24" "f_pos f2 \<le> max_fpos"
    using File_Write_OK(2) [OF fwok] File_Write_OK(3) [OF fwok] File_Write_OK(4) [OF fwok]
    unfolding len by - assumption+
  have "f_pos (m_File h1) < 2 ^ 64"
    using f2(2,3) by (simp add: max_fpos_def)
  then have "unat (File_Tell (m_File h1)) = f_pos (m_File h1)"
    by (simp add: File_Tell_def unat_of_nat)
  with f2 show ?thesis
    by (simp add: writer_inv_def w1 RESERVED_KL_SIZE_def SMPTE_UL_LENGTH_def CLIP_BER_LENGTH_SIZE_def)
qed

lemma WriteFrame_OK:
  assumes "WriteFrame frame sz w = Returns (RESULT_OK, w')"
  shows "\<exists>h f. m_Writer w = Some h
           \<and> unat sz \<le> length frame
           \<and> File_Write (take (unat sz) frame) (m_File h) = (RESULT_OK, f)
           \<and> w' = w\<lparr> m_Writer := Some (h\<lparr> m_IndexWriter := PushIndexEntry (m_StreamOffset h) (m_IndexWriter h),
                                            m_File := f,
                                            m_FramesWritten := m_FramesWritten h + 1,
                                            m_StreamOffset := m_StreamOffset h + ucast sz \<rparr>),
                      m_State := ST_RUNNING \<rparr>"
  using assms
  by (auto simp: WriteFrame_def Let_def Failure_def split: if_splits option.splits prod.splits)

lemma WriteFrame_index:
  assumes "WriteFrame frame sz w = Returns (RESULT_OK, w')" and "m_Writer w = Some h"
  shows "\<exists>h'. m_Writer w' = Some h'
           \<and> IndexEntryArray (m_IndexWriter h') = IndexEntryArray (m_IndexWriter h) @ [m_StreamOffset h]
           \<and> m_StreamOffset h' = m_StreamOffset h + ucast sz"
  using WriteFrame_OK [OF assms(1)] assms(2) by (auto simp: PushIndexEntry_def)

text \<open>
  C2, as the code has it. \<open>OpenWrite\<close> leaves \<open>m_StreamOffset\<close> at \<open>RESERVED_KL_SIZE = 24\<close>, and
  \<open>WriteFrame\<close> pushes the current \<open>m_StreamOffset\<close> before adding the frame size to it. So
  after a successful \<open>OpenWrite\<close> and three successful \<open>WriteFrame\<close> calls with sizes 10, 20
  and 30, the three entries pushed carry the stream offsets 24, 34 and 54: offsets from the
  first byte of the clip's key, the 24 reserved bytes of key and length included.
\<close>

theorem C2_index_offsets:
  assumes "OpenWrite env filename Info sub conformsToSpecs edit_rate sample_rate w0 = (RESULT_OK, w1)"
      and "WriteFrame frame1 10 w1 = Returns (RESULT_OK, w2)"
      and "WriteFrame frame2 20 w2 = Returns (RESULT_OK, w3)"
      and "WriteFrame frame3 30 w3 = Returns (RESULT_OK, w4)"
  shows "\<exists>h1 h4. m_Writer w1 = Some h1 \<and> m_Writer w4 = Some h4
           \<and> IndexEntryArray (m_IndexWriter h4) = IndexEntryArray (m_IndexWriter h1) @ [24, 34, 54]"
proof -
  from OpenWrite_OK(2) [OF assms(1)] obtain h1 where
    h1: "m_Writer w1 = Some h1" "m_StreamOffset h1 = 24"
    by blast
  from WriteFrame_index [OF assms(2) h1(1)] h1(2) obtain h2 where
    h2: "m_Writer w2 = Some h2"
        "IndexEntryArray (m_IndexWriter h2) = IndexEntryArray (m_IndexWriter h1) @ [24]"
        "m_StreamOffset h2 = 34"
    by auto
  from WriteFrame_index [OF assms(3) h2(1)] h2(2,3) obtain h3 where
    h3: "m_Writer w3 = Some h3"
        "IndexEntryArray (m_IndexWriter h3) = IndexEntryArray (m_IndexWriter h1) @ [24, 34]"
        "m_StreamOffset h3 = 54"
    by auto
  from WriteFrame_index [OF assms(4) h3(1)] h3(2,3) obtain h4 where
    "m_Writer w4 = Some h4"
    "IndexEntryArray (m_IndexWriter h4) = IndexEntryArray (m_IndexWriter h1) @ [24, 34, 54]"
    by auto
  with h1(1) show ?thesis
    by blast
qed

lemma WriteFrame_inv:
  assumes inv: "writer_inv w S"
      and wf: "WriteFrame frame sz w = Returns (RESULT_OK, w')"
  shows "writer_inv w' (S + unat sz)" and "m_ClipStart w' = m_ClipStart w"
proof -
  from WriteFrame_OK [OF wf] obtain h f where
    h: "m_Writer w = Some h" and len: "unat sz \<le> length frame" and
    fw: "File_Write (take (unat sz) frame) (m_File h) = (RESULT_OK, f)" and
    w': "w' = w\<lparr> m_Writer := Some (h\<lparr> m_IndexWriter := PushIndexEntry (m_StreamOffset h) (m_IndexWriter h),
                                         m_File := f,
                                         m_FramesWritten := m_FramesWritten h + 1,
                                         m_StreamOffset := m_StreamOffset h + ucast sz \<rparr>),
                   m_State := ST_RUNNING \<rparr>"
    by blast
  from inv h have pos: "f_pos (m_File h) = unat (m_ClipStart w) + 24 + S"
    and so: "unat (m_StreamOffset h) = 24 + S"
    by (simp_all add: writer_inv_def)
  have l: "length (take (unat sz) frame) = unat sz"
    using len by simp
  have f: "f_open f" "f_pos f = f_pos (m_File h) + unat sz" "f_pos f \<le> max_fpos"
    using File_Write_OK(2) [OF fw] File_Write_OK(3) [OF fw] File_Write_OK(4) [OF fw]
    unfolding l by - assumption+
  have "24 + S + unat sz < 2 ^ 64"
    using f(2,3) pos by (simp add: max_fpos_def)
  moreover have "unat (ucast sz :: ui64_t) = unat sz"
  proof -
    have "unat sz < 2 ^ 64"
      using unsigned_less [of sz, where 'a = nat] by simp
    then show ?thesis
      by (simp add: unsigned_ucast_eq take_bit_nat_eq_self)
  qed
  ultimately have "unat (m_StreamOffset h + ucast sz) = 24 + S + unat sz"
    using so by (simp add: unat_word_ariths)
  with f pos show "writer_inv w' (S + unat sz)"
    by (simp add: writer_inv_def w')
  show "m_ClipStart w' = m_ClipStart w"
    by (simp add: w')
qed

lemma WriteFrames_inv:
  assumes "writer_inv w S" and "WriteFrames fs w = Returns (RESULT_OK, w')"
  shows "writer_inv w' (S + (\<Sum>(frame, sz)\<leftarrow>fs. unat sz)) \<and> m_ClipStart w' = m_ClipStart w"
  using assms
proof (induction fs arbitrary: w S)
  case Nil
  then show ?case by simp
next
  case (Cons a fs)
  obtain frame sz where a: "a = (frame, sz)"
    by (cases a)
  from Cons.prems(2) a obtain r w1 where
    s: "WriteFrame frame sz w = Returns (r, w1)"
    by (cases "WriteFrame frame sz w") auto
  from Cons.prems(2) a s have r: "r = RESULT_OK" and rest: "WriteFrames fs w1 = Returns (RESULT_OK, w')"
    by (auto simp: Failure_def split: if_splits)
  note st = WriteFrame_inv [OF Cons.prems(1) s [unfolded r]]
  from Cons.IH [OF st(1) rest] st(2) a show ?case
    by (simp add: add.assoc)
qed

lemma sint_nonneg_fpos:
  fixes p :: ui64_t
  assumes "unat p \<le> max_fpos"
  shows "\<not> sint p < 0"
proof -
  have "unat p < 2 ^ 63"
    using assms by (simp add: max_fpos_def)
  then have "int (unat p) < int (2 ^ 63)"
    by (simp only: of_nat_less_iff)
  then have b: "uint p < 2 ^ 63"
    by simp
  have "sint p = signed_take_bit 63 (uint p)"
    by (simp add: sint_uint)
  also have "\<dots> = uint p"
    using b by (intro signed_take_bit_int_eq_self) (simp_all add: order_trans [of _ 0])
  finally show ?thesis
    by simp
qed

lemma File_Seek_fpos:
  assumes "f_open f" and "unat p \<le> max_fpos"
  shows "File_Seek p f = (RESULT_OK, f\<lparr> f_log := f_log f @ [IO_Seek p], f_pos := unat p \<rparr>)"
  using assms sint_nonneg_fpos [OF assms(2)] by (simp add: File_Seek_def Let_def)

lemma FinalizeClip_inv:
  assumes inv: "writer_inv w S"
      and fin: "FinalizeClip w = Returns (RESULT_OK, w')"
  shows "\<exists>h f. m_Writer w = Some h \<and> w' = w\<lparr> m_Writer := Some (h\<lparr> m_File := f \<rparr>) \<rparr>
           \<and> S < 256 ^ 7
           \<and> f_pos f = f_pos (m_File h)
           \<and> take 8 (drop (unat (m_ClipStart w) + 16) (f_data f)) = 0x87 # be_bytes 7 S
           \<and> f_log f = f_log (m_File h)
                @ [IO_Seek (m_ClipStart w + 16), IO_Write (0x87 # be_bytes 7 S),
                   IO_Seek (File_Tell (m_File h))]"
proof -
  from inv obtain h where h: "m_Writer w = Some h"
    by (cases "m_Writer w") (simp_all add: writer_inv_def)
  let ?c = "m_ClipStart w"
  let ?f = "m_File h"
  from inv h have st: "m_State w \<noteq> ST_BEGIN" and op: "f_open ?f"
    and pos: "f_pos ?f = unat ?c + 24 + S" and bound: "f_pos ?f \<le> max_fpos"
    and so: "unat (m_StreamOffset h) = 24 + S"
    by (simp_all add: writer_inv_def)
  have c16: "unat (?c + 16) = unat ?c + 16"
    using pos bound by (simp add: unat_word_ariths max_fpos_def)
  then have c16b: "unat (?c + 16) \<le> max_fpos"
    using pos bound by simp
  let ?f1 = "?f\<lparr> f_log := f_log ?f @ [IO_Seek (?c + 16)], f_pos := unat ?c + 16 \<rparr>"
  have seek1: "File_Seek (?c + of_nat SMPTE_UL_LENGTH) ?f = (RESULT_OK, ?f1)"
    using File_Seek_fpos [OF op c16b] c16 by (simp add: SMPTE_UL_LENGTH_def)
  have "(24 :: ui64_t) \<le> m_StreamOffset h"
    using so by (simp add: word_le_nat_alt)
  then have sz: "unat (m_StreamOffset h - of_nat RESERVED_KL_SIZE) = S"
    using so by (simp add: unat_sub RESERVED_KL_SIZE_def SMPTE_UL_LENGTH_def CLIP_BER_LENGTH_SIZE_def)
  from fin st h seek1 obtain bs where
    ber: "write_BER (m_StreamOffset h - of_nat RESERVED_KL_SIZE) CLIP_BER_LENGTH_SIZE = Some bs"
    by (cases "write_BER (m_StreamOffset h - of_nat RESERVED_KL_SIZE) CLIP_BER_LENGTH_SIZE")
       (auto simp: FinalizeClip_def Let_def MXFWriter_Reset_def)
  from write_BER_8 [OF ber] sz have bs: "bs = 0x87 # be_bytes 7 S" and S: "S < 256 ^ 7"
    and lbs: "length bs = 8"
    by simp_all
  obtain r2 f2 where w2: "File_Write bs ?f1 = (r2, f2)"
    by (cases "File_Write bs ?f1")
  from fin st h seek1 ber w2 have r2: "r2 = RESULT_OK"
    by (auto simp: FinalizeClip_def Let_def Failure_def split: if_splits prod.splits)
  note w2ok = w2 [unfolded r2]
  have f2o: "f_open f2"
    using File_Write_OK(2) [OF w2ok] .
  have f2l: "f_log f2 = f_log ?f @ [IO_Seek (?c + 16), IO_Write bs]"
    using File_Write_OK(5) [OF w2ok] by simp
  have f2d: "take 8 (drop (unat ?c + 16) (f_data f2)) = bs"
    using File_Write_OK(6) [OF w2ok] lbs by simp
  have tell: "unat (File_Tell ?f) = f_pos ?f"
    using bound by (simp add: File_Tell_def unat_of_nat max_fpos_def)
  then have tb: "unat (File_Tell ?f) \<le> max_fpos"
    using bound by simp
  let ?f3 = "f2\<lparr> f_log := f_log f2 @ [IO_Seek (File_Tell ?f)], f_pos := unat (File_Tell ?f) \<rparr>"
  have seek3: "File_Seek (File_Tell ?f) f2 = (RESULT_OK, ?f3)"
    by (rule File_Seek_fpos [OF f2o tb])
  from fin st h seek1 ber w2ok seek3 have w': "w' = w\<lparr> m_Writer := Some (h\<lparr> m_File := ?f3 \<rparr>) \<rparr>"
    by (simp add: FinalizeClip_def Let_def Failure_def)
  have "f_pos ?f3 = f_pos ?f"
    using tell by simp
  moreover have "take 8 (drop (unat ?c + 16) (f_data ?f3)) = 0x87 # be_bytes 7 S"
    using f2d bs by simp
  moreover have "f_log ?f3 = f_log ?f @ [IO_Seek (?c + 16), IO_Write (0x87 # be_bytes 7 S),
                   IO_Seek (File_Tell ?f)]"
    using f2l bs by simp
  ultimately show ?thesis
    using h w' S by blast
qed

text \<open>
  C4. After a successful \<open>OpenWrite\<close>, a run of successful \<open>WriteFrame\<close> calls and a
  successful \<open>FinalizeClip\<close>: \<open>m_StreamOffset - 24\<close> is the sum of the frame sizes; the calls
  \<open>FinalizeClip\<close> made on the file are a seek to \<open>clip_start + 16\<close>, the write of the 8-byte
  BER length (leading byte \<open>0x87\<close>, seven big-endian bytes of the sum) and a seek back to the
  position saved first; the eight bytes at \<open>clip_start + 16\<close> decode to the sum of the frame
  sizes; and the file position is what it was before the call. Universal labels of the
  dictionary are 16 bytes long.
\<close>

theorem C4_FinalizeClip_backpatch:
  assumes op: "OpenWrite env filename Info sub conformsToSpecs edit_rate sample_rate w0 = (RESULT_OK, w1)"
      and ul: "length (Dict_ul env MDD_IMF_IABEssenceClipWrappedElement) = SMPTE_UL_LENGTH"
      and frames: "WriteFrames fs w1 = Returns (RESULT_OK, w2)"
      and fin: "FinalizeClip w2 = Returns (RESULT_OK, w3)"
  shows "\<exists>h2 h3. m_Writer w2 = Some h2 \<and> m_Writer w3 = Some h3
           \<and> m_ClipStart w2 = m_ClipStart w1
           \<and> unat (m_StreamOffset h2) - 24 = (\<Sum>(frame, sz)\<leftarrow>fs. unat sz)
           \<and> read_BER (take 8 (drop (unat (m_ClipStart w1) + 16) (f_data (m_File h3))))
               = Some (\<Sum>(frame, sz)\<leftarrow>fs. unat sz)
           \<and> f_pos (m_File h3) = f_pos (m_File h2)
           \<and> f_log (m_File h3) = f_log (m_File h2)
                @ [IO_Seek (m_ClipStart w1 + 16),
                   IO_Write (0x87 # be_bytes 7 (\<Sum>(frame, sz)\<leftarrow>fs. unat sz)),
                   IO_Seek (File_Tell (m_File h2))]"
proof -
  let ?S = "\<Sum>(frame, sz)\<leftarrow>fs. unat sz"
  from WriteFrames_inv [OF OpenWrite_OK_inv [OF op ul] frames]
  have inv: "writer_inv w2 ?S" and c: "m_ClipStart w2 = m_ClipStart w1"
    by simp_all
  from FinalizeClip_inv [OF inv fin] obtain h f where
    h: "m_Writer w2 = Some h" and w3: "w3 = w2\<lparr> m_Writer := Some (h\<lparr> m_File := f \<rparr>) \<rparr>" and
    S: "?S < 256 ^ 7" and p: "f_pos f = f_pos (m_File h)" and
    d: "take 8 (drop (unat (m_ClipStart w2) + 16) (f_data f)) = 0x87 # be_bytes 7 ?S" and
    l: "f_log f = f_log (m_File h)
          @ [IO_Seek (m_ClipStart w2 + 16), IO_Write (0x87 # be_bytes 7 ?S),
             IO_Seek (File_Tell (m_File h))]"
    by blast
  from inv h have so: "unat (m_StreamOffset h) - 24 = ?S"
    by (simp add: writer_inv_def)
  have rb: "read_BER (take 8 (drop (unat (m_ClipStart w1) + 16) (f_data f))) = Some ?S"
    using d read_BER_long_7 [OF S] by (simp add: c)
  show ?thesis
    using h w3 c so rb p l by simp
qed

lemma sample_w1_eq:
  "sample_w1 = \<lparr> m_ClipStart = 4, m_State = ST_READY, m_GenericStreamID = 2, m_NextTrackID = 2,
                 m_Writer = Some sample_h1 \<rparr>"
  by (simp add: sample_w1_def OpenWrite_def MXFWriter_new_def sample_wenv_def Failure_def Let_def sample_wfile_def
      File_Write_def sample_header_def File_Tell_def write_BER_0 sample_ul_def SMPTE_UL_LENGTH_def
      RESERVED_KL_SIZE_def CLIP_BER_LENGTH_SIZE_def max_fpos_def closed_file_def sample_sub_def
      sample_h1_def sample_clip_kl_def)

lemmas sample_writer_defs =
  sample_writer_at_def sample_h1_def sample_header_def sample_clip_kl_def

lemma sample_frame1: "WriteFrame (replicate 10 1) 10 sample_w1 = Returns (RESULT_OK, sample_w2)"
  by (simp add: sample_w1_eq sample_w2_def WriteFrame_def File_Write_def Let_def Failure_def
        PushIndexEntry_def max_fpos_def sample_writer_defs)

lemma sample_frame2: "WriteFrame (replicate 20 2) 20 sample_w2 = Returns (RESULT_OK, sample_w3)"
  by (simp add: sample_w2_def sample_w3_def WriteFrame_def File_Write_def Let_def Failure_def
        PushIndexEntry_def max_fpos_def sample_writer_defs)

lemma sample_frame3: "WriteFrame (replicate 30 3) 30 sample_w3 = Returns (RESULT_OK, sample_w4)"
  by (simp add: sample_w3_def sample_w4_def WriteFrame_def File_Write_def Let_def Failure_def
        PushIndexEntry_def max_fpos_def sample_writer_defs)

lemma sample_OpenWrite:
  "OpenWrite sample_wenv ''out.mxf'' (m_Info (h__Writer_new sample_wenv)) sample_sub []
     (24, 1) (48000, 1) MXFWriter_new = (RESULT_OK, sample_w1)"
  using sample_open by (simp add: sample_w1_def prod_eq_iff)

lemma sample_WriteFrames: "WriteFrames sample_frames sample_w1 = Returns (RESULT_OK, sample_w4)"
  by (simp add: sample_frames_def sample_frame1 sample_frame2 sample_frame3 Failure_def)

lemma write_BER_60: "write_BER 60 8 = Some [0x87, 0, 0, 0, 0, 0, 0, 60]"
  by (simp add: write_BER_def be_bytes_numeral)

lemma sample_FinalizeClip: "FinalizeClip sample_w4 = Returns (RESULT_OK, sample_w5)"
  by (simp add: sample_w4_def sample_w5_def FinalizeClip_def File_Seek_def File_Write_def File_Tell_def
        Let_def Failure_def max_fpos_def SMPTE_UL_LENGTH_def RESERVED_KL_SIZE_def
        CLIP_BER_LENGTH_SIZE_def write_BER_60 sample_writer_defs)

text \<open>
  C2 as stated fails. In the sample session the three \<open>WriteFrame\<close> calls with sizes 10, 20
  and 30 succeed and the entries pushed are 24, 34 and 54, not 0, 10 and 30.
\<close>

theorem C2_index_offsets_counterexample:
  "OpenWrite sample_wenv ''out.mxf'' (m_Info (h__Writer_new sample_wenv)) sample_sub []
     (24, 1) (48000, 1) MXFWriter_new = (RESULT_OK, sample_w1)
   \<and> WriteFrame (replicate 10 1) 10 sample_w1 = Returns (RESULT_OK, sample_w2)
   \<and> WriteFrame (replicate 20 2) 20 sample_w2 = Returns (RESULT_OK, sample_w3)
   \<and> WriteFrame (replicate 30 3) 30 sample_w3 = Returns (RESULT_OK, sample_w4)
   \<and> map_option (IndexEntryArray \<circ> m_IndexWriter) (m_Writer sample_w1) = Some []
   \<and> map_option (IndexEntryArray \<circ> m_IndexWriter) (m_Writer sample_w4) = Some [24, 34, 54]
   \<and> map_option (IndexEntryArray \<circ> m_IndexWriter) (m_Writer sample_w4) \<noteq> Some [0, 10, 30]"
  using sample_OpenWrite sample_frame1 sample_frame2 sample_frame3
  by (simp add: sample_w1_eq sample_w4_def sample_writer_at_def sample_h1_def)

theorem C2_index_offsets_witness:
  "OpenWrite sample_wenv ''out.mxf'' (m_Info (h__Writer_new sample_wenv)) sample_sub []
     (24, 1) (48000, 1) MXFWriter_new = (RESULT_OK, sample_w1)
   \<and> WriteFrame (replicate 10 1) 10 sample_w1 = Returns (RESULT_OK, sample_w2)
   \<and> WriteFrame (replicate 20 2) 20 sample_w2 = Returns (RESULT_OK, sample_w3)
   \<and> WriteFrame (replicate 30 3) 30 sample_w3 = Returns (RESULT_OK, sample_w4)
   \<and> (\<exists>h1 h4. m_Writer sample_w1 = Some h1 \<and> m_Writer sample_w4 = Some h4
           \<and> IndexEntryArray (m_IndexWriter h4) = IndexEntryArray (m_IndexWriter h1) @ [24, 34, 54])"
  using C2_index_offsets [OF sample_OpenWrite sample_frame1 sample_frame2 sample_frame3]
        sample_OpenWrite sample_frame1 sample_frame2 sample_frame3
  by simp

theorem C4_FinalizeClip_backpatch_witness:
  "OpenWrite sample_wenv ''out.mxf'' (m_Info (h__Writer_new sample_wenv)) sample_sub []
     (24, 1) (48000, 1) MXFWriter_new = (RESULT_OK, sample_w1)
   \<and> length (Dict_ul sample_wenv MDD_IMF_IABEssenceClipWrappedElement) = SMPTE_UL_LENGTH
   \<and> WriteFrames sample_frames sample_w1 = Returns (RESULT_OK, sample_w4)
   \<and> FinalizeClip sample_w4 = Returns (RESULT_OK, sample_w5)
   \<and> m_ClipStart sample_w1 = 4
   \<and> (\<Sum>(frame, sz)\<leftarrow>sample_frames. unat sz) = 60
   \<and> (\<exists>h2 h3. m_Writer sample_w4 = Some h2 \<and> m_Writer sample_w5 = Some h3
           \<and> unat (m_StreamOffset h2) - 24 = 60
           \<and> read_BER (take 8 (drop 20 (f_data (m_File h3)))) = Some 60
           \<and> f_pos (m_File h3) = f_pos (m_File h2)
           \<and> f_pos (m_File h2) = 88)"
proof -
  have ul: "length (Dict_ul sample_wenv MDD_IMF_IABEssenceClipWrappedElement) = SMPTE_UL_LENGTH"
    by (simp add: sample_wenv_def sample_ul_def SMPTE_UL_LENGTH_def)
  have c: "m_ClipStart sample_w1 = 4"
    by (simp add: sample_w1_eq)
  have s: "(\<Sum>(frame, sz)\<leftarrow>sample_frames. unat sz) = 60"
    by (simp add: sample_frames_def)
  have p: "\<And>h. m_Writer sample_w4 = Some h \<Longrightarrow> f_pos (m_File h) = 88"
    by (auto simp: sample_w4_def sample_writer_at_def)
  from C4_FinalizeClip_backpatch [OF sample_OpenWrite ul sample_WriteFrames sample_FinalizeClip]
  obtain h2 h3 where
    "m_Writer sample_w4 = Some h2" "m_Writer sample_w5 = Some h3"
    "unat (m_StreamOffset h2) - 24 = 60"
    "read_BER (take 8 (drop 20 (f_data (m_File h3)))) = Some 60"
    "f_pos (m_File h3) = f_pos (m_File h2)"
    unfolding c s by auto
  with p [of h2] sample_OpenWrite ul sample_WriteFrames sample_FinalizeClip c s show ?thesis
    by blast
qed

lemma writer_guards:
  "m_State w \<noteq> ST_BEGIN \<Longrightarrow>
     OpenWrite env filename Info sub conformsToSpecs edit_rate sample_rate w = (RESULT_STATE, w)"
  "m_State w = ST_BEGIN \<Longrightarrow> WriteFrame frame sz w = Returns (RESULT_INIT, w)"
  "m_State w = ST_BEGIN \<Longrightarrow> FinalizeClip w = Returns (RESULT_INIT, w)"
  by (simp_all add: OpenWrite_def WriteFrame_def FinalizeClip_def)

text \<open>
  C3 at the failing input. On a writer in state \<open>BEGIN\<close> (here the freshly constructed one)
  \<open>FinalizeMxf\<close> returns no result: it tests no state and dereferences the empty \<open>m_Writer\<close>.
  \<open>OpenWrite\<close>, \<open>WriteFrame\<close> and \<open>FinalizeClip\<close> do test the state (\<open>writer_guards\<close>).
\<close>

theorem C3_FinalizeMxf_before_OpenWrite:
  "m_State MXFWriter_new = ST_BEGIN \<and> FinalizeMxf env MXFWriter_new = Aborts"
  by (simp add: FinalizeMxf_def MXFWriter_new_def)

section \<open>Opening a track file\<close>

text \<open>
  C10. When the file opens and the header partition parses, \<open>OpenMXFRead\<close> looks at the
  RIP the header parse left. With exactly three pairs it calls \<open>Seek\<close> with the byte offset
  of the second pair (on an open file the call is logged, and the position is that offset
  when it is a valid \<open>fpos_t\<close>), hands the file to the body partition parser, and then
  records \<open>m_EssenceStart\<close> as the position the parser left; the result is the parser's.
  With exactly two pairs no body partition is parsed: the body partition object and the
  file are as the header parse left them, \<open>m_EssenceStart\<close> is the position after the
  header parse, and the result is \<open>RESULT_OK\<close>.
\<close>

theorem C10_OpenMXFRead_body_partition:
  assumes "FileReader_OpenRead env filename (m_DCPFile h) = (RESULT_OK, f0)"
      and "OP1aHeader_InitFromFile env f0 (m_DCPHeaderPart h) = (RESULT_OK, f1, hp)"
  shows "(length (m_RIP_PairArray hp) = 3 \<longrightarrow>
            (\<exists>seek_result f2 result f3 bp.
               File_Seek (snd (m_RIP_PairArray hp ! 1)) f1 = (seek_result, f2)
             \<and> (f_open f1 \<longrightarrow> f_log f2 = f_log f1 @ [IO_Seek (snd (m_RIP_PairArray hp ! 1))])
             \<and> (f_open f1 \<and> unat (snd (m_RIP_PairArray hp ! 1)) \<le> max_fpos \<longrightarrow>
                   f_pos f2 = unat (snd (m_RIP_PairArray hp ! 1)))
             \<and> Partition_InitFromFile env f2 (m_BodyPart h) = (result, f3, bp)
             \<and> OpenMXFRead env filename h
                 = (result, h\<lparr> m_LastPosition := 0, m_DCPFile := f3, m_DCPHeaderPart := hp,
                               m_BodyPart := bp, m_EssenceStart := File_Tell f3 \<rparr>)))
       \<and> (length (m_RIP_PairArray hp) = 2 \<longrightarrow>
            OpenMXFRead env filename h
              = (RESULT_OK, h\<lparr> m_LastPosition := 0, m_DCPFile := f1, m_DCPHeaderPart := hp,
                              m_EssenceStart := File_Tell f1 \<rparr>))"
proof (intro conjI impI)
  assume three: "length (m_RIP_PairArray hp) = 3"
  let ?off = "snd (m_RIP_PairArray hp ! 1)"
  obtain seek_result f2 where sk: "File_Seek ?off f1 = (seek_result, f2)"
    by (cases "File_Seek ?off f1")
  obtain result f3 bp where bd: "Partition_InitFromFile env f2 (m_BodyPart h) = (result, f3, bp)"
    by (cases "Partition_InitFromFile env f2 (m_BodyPart h)")
  have lg: "f_open f1 \<longrightarrow> f_log f2 = f_log f1 @ [IO_Seek ?off]"
    using sk by (auto simp: File_Seek_def Let_def split: if_splits)
  have ps: "f_open f1 \<and> unat ?off \<le> max_fpos \<longrightarrow> f_pos f2 = unat ?off"
    using sk File_Seek_fpos [of f1 ?off] by auto
  have "OpenMXFRead env filename h
          = (result, h\<lparr> m_LastPosition := 0, m_DCPFile := f3, m_DCPHeaderPart := hp,
                        m_BodyPart := bp, m_EssenceStart := File_Tell f3 \<rparr>)"
    using assms three sk bd by (simp add: OpenMXFRead_def Let_def ASDCP_SUCCESS_def)
  with sk lg ps bd show "\<exists>seek_result f2 result f3 bp.
               File_Seek ?off f1 = (seek_result, f2)
             \<and> (f_open f1 \<longrightarrow> f_log f2 = f_log f1 @ [IO_Seek ?off])
             \<and> (f_open f1 \<and> unat ?off \<le> max_fpos \<longrightarrow> f_pos f2 = unat ?off)
             \<and> Partition_InitFromFile env f2 (m_BodyPart h) = (result, f3, bp)
             \<and> OpenMXFRead env filename h
                 = (result, h\<lparr> m_LastPosition := 0, m_DCPFile := f3, m_DCPHeaderPart := hp,
                               m_BodyPart := bp, m_EssenceStart := File_Tell f3 \<rparr>)"
    by blast
next
  assume "length (m_RIP_PairArray hp) = 2"
  with assms show "OpenMXFRead env filename h
              = (RESULT_OK, h\<lparr> m_LastPosition := 0, m_DCPFile := f1, m_DCPHeaderPart := hp,
                              m_EssenceStart := File_Tell f1 \<rparr>)"
    by (simp add: OpenMXFRead_def Let_def ASDCP_SUCCESS_def)
qed

theorem C10_OpenMXFRead_body_partition_witness:
  "OpenMXFRead (sample_denv [(0, 0), (1, 100), (0, 500)]) ''clip.mxf'' sample_dreader
     = (RESULT_OK,
        sample_dreader\<lparr> m_LastPosition := 0,
          m_DCPFile := sample_dfile\<lparr> f_log := [IO_Seek 100], f_pos := 110 \<rparr>,
          m_DCPHeaderPart := (m_DCPHeaderPart sample_dreader)\<lparr> m_RIP_PairArray := [(0, 0), (1, 100), (0, 500)] \<rparr>,
          m_BodyPart := (m_BodyPart sample_dreader)\<lparr> ThisPartition := 100 \<rparr>,
          m_EssenceStart := 110 \<rparr>)
   \<and> OpenMXFRead (sample_denv [(0, 0), (0, 500)]) ''clip.mxf'' sample_dreader
     = (RESULT_OK,
        sample_dreader\<lparr> m_LastPosition := 0,
          m_DCPFile := sample_dfile\<lparr> f_pos := 50 \<rparr>,
          m_DCPHeaderPart := (m_DCPHeaderPart sample_dreader)\<lparr> m_RIP_PairArray := [(0, 0), (0, 500)] \<rparr>,
          m_EssenceStart := 50 \<rparr>)"
proof -
  let ?p3 = "[(0, 0), (1, 100), (0, 500)] :: RIP_Pair list"
  let ?p2 = "[(0, 0), (0, 500)] :: RIP_Pair list"
  let ?hp3 = "(m_DCPHeaderPart sample_dreader)\<lparr> m_RIP_PairArray := ?p3 \<rparr>"
  let ?hp2 = "(m_DCPHeaderPart sample_dreader)\<lparr> m_RIP_PairArray := ?p2 \<rparr>"
  have o3: "FileReader_OpenRead (sample_denv ?p3) ''clip.mxf'' (m_DCPFile sample_dreader) = (RESULT_OK, sample_dfile)"
    by (simp add: sample_denv_def)
  have h3: "OP1aHeader_InitFromFile (sample_denv ?p3) sample_dfile (m_DCPHeaderPart sample_dreader)
              = (RESULT_OK, sample_dfile\<lparr> f_pos := 50 \<rparr>, ?hp3)"
    by (simp add: sample_denv_def)
  have o2: "FileReader_OpenRead (sample_denv ?p2) ''clip.mxf'' (m_DCPFile sample_dreader) = (RESULT_OK, sample_dfile)"
    by (simp add: sample_denv_def)
  have h2: "OP1aHeader_InitFromFile (sample_denv ?p2) sample_dfile (m_DCPHeaderPart sample_dreader)
              = (RESULT_OK, sample_dfile\<lparr> f_pos := 50 \<rparr>, ?hp2)"
    by (simp add: sample_denv_def)
  have l3: "length (m_RIP_PairArray ?hp3) = 3" and l2: "length (m_RIP_PairArray ?hp2) = 2"
    by simp_all
  have sk: "File_Seek 100 (sample_dfile\<lparr> f_pos := 50 \<rparr>)
              = (RESULT_OK, sample_dfile\<lparr> f_log := [IO_Seek 100], f_pos := 100 \<rparr>)"
    by (simp add: File_Seek_def sample_dfile_def)
  have bd: "Partition_InitFromFile (sample_denv ?p3) (sample_dfile\<lparr> f_log := [IO_Seek 100], f_pos := 100 \<rparr>)
              (m_BodyPart sample_dreader)
            = (RESULT_OK, sample_dfile\<lparr> f_log := [IO_Seek 100], f_pos := 110 \<rparr>,
               (m_BodyPart sample_dreader)\<lparr> ThisPartition := 100 \<rparr>)"
    by (simp add: sample_denv_def sample_dfile_def)
  from C10_OpenMXFRead_body_partition [OF o3 h3] l3 sk bd
  have a: "OpenMXFRead (sample_denv ?p3) ''clip.mxf'' sample_dreader
     = (RESULT_OK,
        sample_dreader\<lparr> m_LastPosition := 0,
          m_DCPFile := sample_dfile\<lparr> f_log := [IO_Seek 100], f_pos := 110 \<rparr>,
          m_DCPHeaderPart := ?hp3,
          m_BodyPart := (m_BodyPart sample_dreader)\<lparr> ThisPartition := 100 \<rparr>,
          m_EssenceStart := 110 \<rparr>)"
    by (auto simp: File_Tell_def)
  from C10_OpenMXFRead_body_partition [OF o2 h2] l2
  have b: "OpenMXFRead (sample_denv ?p2) ''clip.mxf'' sample_dreader
     = (RESULT_OK,
        sample_dreader\<lparr> m_LastPosition := 0,
          m_DCPFile := sample_dfile\<lparr> f_pos := 50 \<rparr>,
          m_DCPHeaderPart := ?hp2,
          m_EssenceStart := 50 \<rparr>)"
    by (simp add: File_Tell_def)
  from a b show ?thesis
    by simp
qed

end
